theory Spec2Isabelle
  imports Main "HOL-Library.Word" "HOL-Library.AList"
begin

section \<open>The world outside the provider\<close>

text \<open>
  The provider talks to the Atlassian Teams API through Go's \<^verbatim>\<open>net/http\<close> and
  \<^verbatim>\<open>encoding/json\<close>. Neither belongs to the repository, so both are parameters of the
  model: the transport answers a request (given the requests made before it), and the
  decoders turn a response body into a value or fail. An \<^verbatim>\<open>error\<close> of Go is its message,
  a string, since \<^verbatim>\<open>TeamResource.Read\<close> compares messages.
\<close>

type_synonym go_error = string

datatype json =
    JNull
  | JBool bool
  | JNumber int
  | JString string
  | JArray "json list"
  | JObject "(string \<times> json) list"

record http_req =
  Method :: string
  URL :: string
  Header :: "(string \<times> string) list"
  ReqBody :: "json option"

record Response =
  StatusCode :: int
  Status :: string
  Body :: string

text \<open>
  What becomes of one request: \<^verbatim>\<open>http.NewRequest\<close> refuses it, \<^verbatim>\<open>HTTPClient.Do\<close> fails
  (network, 30 second timeout), or the server answers.
\<close>

datatype http_outcome =
    Malformed go_error
  | Failed go_error
  | Answered Response

type_synonym transport = "http_req list \<Rightarrow> http_req \<Rightarrow> http_outcome"

text \<open>The constants of \<^verbatim>\<open>net/http\<close> the client compares status codes with.\<close>

definition StatusOK :: int where "StatusOK = 200"
definition StatusCreated :: int where "StatusCreated = 201"
definition StatusNoContent :: int where "StatusNoContent = 204"
definition StatusNotFound :: int where "StatusNotFound = 404"

section \<open>The API client (current generation)\<close>

text \<open>
  The repository holds more than one copy of the current client. \<^verbatim>\<open>CreateTeam\<close>,
  \<^verbatim>\<open>GetTeam\<close>, \<^verbatim>\<open>UpdateTeam\<close> and \<^verbatim>\<open>DeleteTeam\<close> follow the copy whose calls return a
  \<^verbatim>\<open>Team\<close>; the other copy names its response types differently and adds a
  \<^verbatim>\<open>siteId\<close> query to the path of \<^verbatim>\<open>GetTeam\<close>, with the same status handling.
  \<^verbatim>\<open>makeRequestWithHeaders\<close> is that of the copy which has it; both copies send the same
  headers when no custom header is given.
\<close>

record AtlassianClient =
  APIToken :: string
  Email :: string
  Organization :: string
  SiteId :: string
  OrgId :: string
  BaseURL :: string

record UserPermissions =
  AddMembers :: bool
  DeleteTeam_perm :: bool
  RemoveMembers :: bool
  UpdateTeam_perm :: bool

record TeamMember =
  AccountID :: string

text \<open>\<^verbatim>\<open>Members\<close> is a slice that \<^verbatim>\<open>Create\<close> tests against nil: \<open>None\<close> is nil.\<close>

record Team =
  TeamID :: string
  DisplayName :: string
  Description :: string
  TeamType :: string
  OrganizationId :: string
  CreatorId :: string
  State :: string
  Members :: "TeamMember list option"
  UserPermissions :: "UserPermissions option"

record CreateTeamRequest =
  c_DisplayName :: string
  c_Description :: string
  c_TeamType :: string
  c_SiteId :: string

record UpdateTeamRequest =
  u_DisplayName :: string
  u_Description :: string

text \<open>
  \<^verbatim>\<open>json.Marshal\<close> on the request structs, following their field tags: a field tagged
  \<^verbatim>\<open>omitempty\<close> is left out when it is the empty string (or the number 0).
\<close>

definition omitempty :: "string \<Rightarrow> string \<Rightarrow> (string \<times> json) list" where
  "omitempty key v = (if v = [] then [] else [(key, JString v)])"

definition marshal_CreateTeamRequest :: "CreateTeamRequest \<Rightarrow> json" where
  "marshal_CreateTeamRequest r =
     JObject ([(''displayName'', JString (c_DisplayName r)),
               (''description'', JString (c_Description r)),
               (''teamType'', JString (c_TeamType r))]
              @ omitempty ''siteId'' (c_SiteId r))"

definition marshal_UpdateTeamRequest :: "UpdateTeamRequest \<Rightarrow> json" where
  "marshal_UpdateTeamRequest r =
     JObject (omitempty ''displayName'' (u_DisplayName r)
              @ omitempty ''description'' (u_Description r))"

definition marshal_TeamMember :: "TeamMember \<Rightarrow> json" where
  "marshal_TeamMember m = JObject [(''accountId'', JString (AccountID m))]"

text \<open>
  \<^verbatim>\<open>makeRequestWithHeaders\<close>: bearer token, JSON content type, the default \<^verbatim>\<open>Accept\<close>
  unless a custom one is given, then the custom headers. The request is appended to the
  trace of requests the client has handed to \<^verbatim>\<open>net/http\<close>.
\<close>

definition request_headers :: "AtlassianClient \<Rightarrow> (string \<times> string) list \<Rightarrow> (string \<times> string) list" where
  "request_headers c customHeaders =
     (let h0 = [(''Authorization'', ''Bearer '' @ APIToken c),
                (''Content-Type'', ''application/json'')];
          h1 = (if map_of customHeaders ''Accept'' = None \<or> map_of customHeaders ''Accept'' = Some []
                then AList.update ''Accept'' ''application/json'' h0 else h0)
      in fold (\<lambda>(k, v). AList.update k v) customHeaders h1)"

definition new_request ::
  "AtlassianClient \<Rightarrow> string \<Rightarrow> string \<Rightarrow> json option \<Rightarrow> (string \<times> string) list \<Rightarrow> http_req" where
  "new_request c method path body customHeaders =
     \<lparr>Method = method, URL = BaseURL c @ path,
      Header = request_headers c customHeaders, ReqBody = body\<rparr>"

definition makeRequestWithHeaders ::
  "transport \<Rightarrow> AtlassianClient \<Rightarrow> string \<Rightarrow> string \<Rightarrow> json option \<Rightarrow> (string \<times> string) list
     \<Rightarrow> http_req list \<Rightarrow> (go_error + Response) \<times> http_req list" where
  "makeRequestWithHeaders tr c method path body customHeaders trace =
     (let req = new_request c method path body customHeaders
      in (case tr trace req of
            Malformed e \<Rightarrow> Inl (''error creating request: '' @ e)
          | Failed e \<Rightarrow> Inl (''error making request: '' @ e)
          | Answered r \<Rightarrow> Inr r,
          trace @ [req]))"

definition makeRequest ::
  "transport \<Rightarrow> AtlassianClient \<Rightarrow> string \<Rightarrow> string \<Rightarrow> json option
     \<Rightarrow> http_req list \<Rightarrow> (go_error + Response) \<times> http_req list" where
  "makeRequest tr c method path body trace = makeRequestWithHeaders tr c method path body [] trace"

definition getTeamAPIPath :: "AtlassianClient \<Rightarrow> string \<Rightarrow> string" where
  "getTeamAPIPath c endpoint =
     (let orgIdentifier = (if OrgId c = [] then Organization c else OrgId c)
      in ''/public/teams/v1/org/'' @ orgIdentifier @ endpoint)"

text \<open>The body of an API error: \<^verbatim>\<open>resp.Status\<close>, a dash, the raw body.\<close>

definition api_error :: "string \<Rightarrow> Response \<Rightarrow> go_error" where
  "api_error what r = what @ Status r @ '' - '' @ Body r"

definition CreateTeam ::
  "transport \<Rightarrow> (string \<Rightarrow> go_error + Team) \<Rightarrow> AtlassianClient \<Rightarrow> CreateTeamRequest
     \<Rightarrow> http_req list \<Rightarrow> (go_error + Team) \<times> http_req list" where
  "CreateTeam tr decode c team trace =
     (case makeRequest tr c ''POST'' (getTeamAPIPath c ''/teams/'')
             (Some (marshal_CreateTeamRequest team)) trace of
        (Inl err, trace') \<Rightarrow> (Inl (''error creating team: '' @ err), trace')
      | (Inr resp, trace') \<Rightarrow>
          if StatusCode resp \<noteq> StatusCreated \<and> StatusCode resp \<noteq> StatusOK
          then (Inl (api_error ''API error creating team: '' resp), trace')
          else (case decode (Body resp) of
                  Inl err \<Rightarrow> (Inl (''error decoding response: '' @ err), trace')
                | Inr createdTeam \<Rightarrow> (Inr createdTeam, trace')))"

definition GetTeam ::
  "transport \<Rightarrow> (string \<Rightarrow> go_error + Team) \<Rightarrow> AtlassianClient \<Rightarrow> string
     \<Rightarrow> http_req list \<Rightarrow> (go_error + Team) \<times> http_req list" where
  "GetTeam tr decode c teamID trace =
     (case makeRequest tr c ''GET'' (getTeamAPIPath c (''/teams/'' @ teamID)) None trace of
        (Inl err, trace') \<Rightarrow> (Inl (''error getting team: '' @ err), trace')
      | (Inr resp, trace') \<Rightarrow>
          if StatusCode resp = StatusNotFound
          then (Inl (''team not found: '' @ teamID), trace')
          else if StatusCode resp \<noteq> StatusOK
          then (Inl (api_error ''API error getting team: '' resp), trace')
          else (case decode (Body resp) of
                  Inl err \<Rightarrow> (Inl (''error decoding response: '' @ err), trace')
                | Inr team \<Rightarrow> (Inr team, trace')))"

definition UpdateTeam ::
  "transport \<Rightarrow> (string \<Rightarrow> go_error + Team) \<Rightarrow> AtlassianClient \<Rightarrow> string \<Rightarrow> UpdateTeamRequest
     \<Rightarrow> http_req list \<Rightarrow> (go_error + Team) \<times> http_req list" where
  "UpdateTeam tr decode c teamID updateReq trace =
     (case makeRequest tr c ''PATCH'' (getTeamAPIPath c (''/teams/'' @ teamID))
             (Some (marshal_UpdateTeamRequest updateReq)) trace of
        (Inl err, trace') \<Rightarrow> (Inl (''error updating team: '' @ err), trace')
      | (Inr resp, trace') \<Rightarrow>
          if StatusCode resp = StatusNotFound
          then (Inl (''team not found: '' @ teamID), trace')
          else if StatusCode resp \<noteq> StatusOK
          then (Inl (api_error ''API error updating team: '' resp), trace')
          else (case decode (Body resp) of
                  Inl err \<Rightarrow> (Inl (''error decoding response: '' @ err), trace')
                | Inr updatedTeam \<Rightarrow> (Inr updatedTeam, trace')))"

text \<open>\<^verbatim>\<open>DeleteTeam\<close> returns an error or nil: \<open>None\<close> is nil.\<close>

definition DeleteTeam ::
  "transport \<Rightarrow> AtlassianClient \<Rightarrow> string \<Rightarrow> http_req list \<Rightarrow> go_error option \<times> http_req list" where
  "DeleteTeam tr c teamID trace =
     (case makeRequest tr c ''DELETE'' (getTeamAPIPath c (''/teams/'' @ teamID)) None trace of
        (Inl err, trace') \<Rightarrow> (Some (''error deleting team: '' @ err), trace')
      | (Inr resp, trace') \<Rightarrow>
          if StatusCode resp = StatusNotFound
          then (None, trace')
          else if StatusCode resp \<noteq> StatusNoContent \<and> StatusCode resp \<noteq> StatusOK
          then (Some (api_error ''API error deleting team: '' resp), trace')
          else (None, trace'))"

subsection \<open>Bulk operations and listing (client\_team\_operations.go)\<close>

record PublicApiBulkTeamOperationError =
  be_Code :: string
  be_Message :: string
  be_TeamID :: string

record PublicApiBulkOperationResponse =
  b_Errors :: "PublicApiBulkTeamOperationError list"
  SuccessfulTeamIds :: "string list"

record PublicApiTeamPaginationResult =
  Cursor :: string
  Entities :: "Team list"

definition marshal_PublicApiBulkOperationRequest :: "string list \<Rightarrow> json" where
  "marshal_PublicApiBulkOperationRequest teamIDs = JObject [(''teamIds'', JArray (map JString teamIDs))]"

text \<open>Decimal numerals, for \<^verbatim>\<open>%d\<close> and \<^verbatim>\<open>strconv.FormatInt(_, 10)\<close>.\<close>

fun decimal :: "nat \<Rightarrow> string" where
  "decimal n = (if n < 10 then [''0123456789'' ! n]
                else decimal (n div 10) @ [''0123456789'' ! (n mod 10)])"

declare decimal.simps [simp del]

definition FormatInt :: "int \<Rightarrow> string" where
  "FormatInt i = (if i < 0 then CHR ''-'' # decimal (nat (- i)) else decimal (nat i))"

fun Join :: "string list \<Rightarrow> string \<Rightarrow> string" where
  "Join [] sep = []"
| "Join [x] sep = x"
| "Join (x # y # ys) sep = x @ sep @ Join (y # ys) sep"

definition ArchiveTeams ::
  "transport \<Rightarrow> (string \<Rightarrow> go_error + PublicApiBulkOperationResponse) \<Rightarrow> AtlassianClient
     \<Rightarrow> string \<Rightarrow> string list \<Rightarrow> http_req list
     \<Rightarrow> (go_error + PublicApiBulkOperationResponse) \<times> http_req list" where
  "ArchiveTeams tr decode c orgID teamIDs trace =
     (if length teamIDs = 0 \<or> length teamIDs > 100
      then (Inl (''teamIDs must contain between 1 and 100 items, got '' @ decimal (length teamIDs)), trace)
      else (case makeRequest tr c ''POST'' (''/public/teams/v1/org/'' @ orgID @ ''/teams/archive'')
                   (Some (marshal_PublicApiBulkOperationRequest teamIDs)) trace of
              (Inl err, trace') \<Rightarrow> (Inl (''error archiving teams: '' @ err), trace')
            | (Inr resp, trace') \<Rightarrow>
                if StatusCode resp \<noteq> StatusOK
                then (Inl (api_error ''API error archiving teams: '' resp), trace')
                else (case decode (Body resp) of
                        Inl err \<Rightarrow> (Inl (''error decoding archive response: '' @ err), trace')
                      | Inr archiveResponse \<Rightarrow> (Inr archiveResponse, trace'))))"

definition UnarchiveTeams ::
  "transport \<Rightarrow> (string \<Rightarrow> go_error + PublicApiBulkOperationResponse) \<Rightarrow> AtlassianClient
     \<Rightarrow> string \<Rightarrow> string list \<Rightarrow> http_req list
     \<Rightarrow> (go_error + PublicApiBulkOperationResponse) \<times> http_req list" where
  "UnarchiveTeams tr decode c orgID teamIDs trace =
     (if length teamIDs = 0 \<or> length teamIDs > 100
      then (Inl (''teamIDs must contain between 1 and 100 items, got '' @ decimal (length teamIDs)), trace)
      else (case makeRequest tr c ''POST'' (''/public/teams/v1/org/'' @ orgID @ ''/teams/unarchive'')
                   (Some (marshal_PublicApiBulkOperationRequest teamIDs)) trace of
              (Inl err, trace') \<Rightarrow> (Inl (''error unarchiving teams: '' @ err), trace')
            | (Inr resp, trace') \<Rightarrow>
                if StatusCode resp \<noteq> StatusOK
                then (Inl (api_error ''API error unarchiving teams: '' resp), trace')
                else (case decode (Body resp) of
                        Inl err \<Rightarrow> (Inl (''error decoding unarchive response: '' @ err), trace')
                      | Inr unarchiveResponse \<Rightarrow> (Inr unarchiveResponse, trace'))))"

definition RestoreTeam ::
  "transport \<Rightarrow> AtlassianClient \<Rightarrow> string \<Rightarrow> string \<Rightarrow> http_req list
     \<Rightarrow> go_error option \<times> http_req list" where
  "RestoreTeam tr c orgID teamID trace =
     (case makeRequest tr c ''POST''
             (''/public/teams/v1/org/'' @ orgID @ ''/teams/'' @ teamID @ ''/restore'') None trace of
        (Inl err, trace') \<Rightarrow> (Some (''error restoring team: '' @ err), trace')
      | (Inr resp, trace') \<Rightarrow>
          if StatusCode resp = StatusNotFound
          then (Some (''team not found for restore: '' @ teamID), trace')
          else if StatusCode resp \<noteq> StatusNoContent
          then (Some (api_error ''API error restoring team: '' resp), trace')
          else (None, trace'))"

text \<open>
  The query of \<^verbatim>\<open>GetTeams\<close>. Its parameter \<^verbatim>\<open>size\<close> (here \<open>sz\<close>) is an \<^verbatim>\<open>int32\<close>,
  compared as a signed number and printed through \<^verbatim>\<open>int64\<close>.
\<close>

definition GetTeams_queryParams :: "string \<Rightarrow> 32 word \<Rightarrow> string \<Rightarrow> string list" where
  "GetTeams_queryParams siteId sz cursor =
     (if siteId \<noteq> [] then [''siteId='' @ siteId] else [])
     @ (if 0 <s sz
        then (let sz' = (if 300 <s sz then 300 else sz)
              in [''size='' @ FormatInt (sint sz')])
        else [])
     @ (if cursor \<noteq> [] then [''cursor='' @ cursor] else [])"

definition GetTeams_path :: "string \<Rightarrow> string \<Rightarrow> 32 word \<Rightarrow> string \<Rightarrow> string" where
  "GetTeams_path orgID siteId sz cursor =
     (let path = ''/public/teams/v1/org/'' @ orgID @ ''/teams'';
          queryParams = GetTeams_queryParams siteId sz cursor
      in if length queryParams > 0 then path @ ''?'' @ Join queryParams ''&'' else path)"

definition GetTeams ::
  "transport \<Rightarrow> (string \<Rightarrow> go_error + PublicApiTeamPaginationResult) \<Rightarrow> AtlassianClient
     \<Rightarrow> string \<Rightarrow> string \<Rightarrow> 32 word \<Rightarrow> string \<Rightarrow> http_req list
     \<Rightarrow> (go_error + PublicApiTeamPaginationResult) \<times> http_req list" where
  "GetTeams tr decode c orgID siteId sz cursor trace =
     (case makeRequest tr c ''GET'' (GetTeams_path orgID siteId sz cursor) None trace of
        (Inl err, trace') \<Rightarrow> (Inl (''error getting teams list: '' @ err), trace')
      | (Inr resp, trace') \<Rightarrow>
          if StatusCode resp \<noteq> StatusOK
          then (Inl (api_error ''API error getting teams list: '' resp), trace')
          else (case decode (Body resp) of
                  Inl err \<Rightarrow> (Inl (''error decoding teams list response: '' @ err), trace')
                | Inr teamsResponse \<Rightarrow> (Inr teamsResponse, trace')))"

subsection \<open>Member operations\<close>

record PublicApiMembershipFetchPayload =
  After :: string
  First :: "32 word"

record PublicApiPageInfoAccountId =
  EndCursor :: string
  HasNextPage :: bool

record PublicApiFetchResponse =
  PageInfo :: PublicApiPageInfoAccountId
  Results :: "TeamMember list"

record PublicApiMembershipCodedError =
  e_AccountID :: string
  e_Code :: string
  e_Message :: string

record PublicApiMembershipAddResponse =
  a_Errors :: "PublicApiMembershipCodedError list"
  a_Members :: "TeamMember list"

record PublicApiMembershipRemoveResponse =
  r_Errors :: "PublicApiMembershipCodedError list"

definition marshal_PublicApiMembershipFetchPayload :: "PublicApiMembershipFetchPayload \<Rightarrow> json" where
  "marshal_PublicApiMembershipFetchPayload p =
     JObject (omitempty ''after'' (After p)
              @ (if First p = 0 then [] else [(''first'', JNumber (sint (First p)))]))"

text \<open>The payloads of add and remove have the same shape: one key, \<^verbatim>\<open>members\<close>.\<close>

definition marshal_members_payload :: "TeamMember list \<Rightarrow> json" where
  "marshal_members_payload members = JObject [(''members'', JArray (map marshal_TeamMember members))]"

definition FetchTeamMembers_payload :: "string \<Rightarrow> 32 word \<Rightarrow> PublicApiMembershipFetchPayload" where
  "FetchTeamMembers_payload after first =
     (let payload = \<lparr>After = [], First = 0\<rparr>;
          payload = (if after \<noteq> [] then payload\<lparr>After := after\<rparr> else payload);
          payload = (if 0 <s first \<and> first \<le>s 50 then payload\<lparr>First := first\<rparr> else payload)
      in payload)"

definition FetchTeamMembers ::
  "transport \<Rightarrow> (string \<Rightarrow> go_error + PublicApiFetchResponse) \<Rightarrow> AtlassianClient
     \<Rightarrow> string \<Rightarrow> string \<Rightarrow> string \<Rightarrow> string \<Rightarrow> 32 word \<Rightarrow> http_req list
     \<Rightarrow> (go_error + PublicApiFetchResponse) \<times> http_req list" where
  "FetchTeamMembers tr decode c orgID teamID siteId after first trace =
     (let path = ''/public/teams/v1/org/'' @ orgID @ ''/teams/'' @ teamID @ ''/members'';
          path = (if siteId \<noteq> [] then path @ ''?siteId='' @ siteId else path);
          payload = FetchTeamMembers_payload after first
      in case makeRequestWithHeaders tr c ''POST'' path
                (Some (marshal_PublicApiMembershipFetchPayload payload)) [(''Accept'', ''*/*'')] trace of
           (Inl err, trace') \<Rightarrow> (Inl (''error fetching team members: '' @ err), trace')
         | (Inr resp, trace') \<Rightarrow>
             if StatusCode resp \<noteq> StatusOK
             then (Inl (api_error ''API error fetching team members: '' resp), trace')
             else (case decode (Body resp) of
                     Inl err \<Rightarrow> (Inl (''error decoding team members response: '' @ err), trace')
                   | Inr membersResponse \<Rightarrow> (Inr membersResponse, trace')))"

definition AddTeamMembers ::
  "transport \<Rightarrow> (string \<Rightarrow> go_error + PublicApiMembershipAddResponse) \<Rightarrow> AtlassianClient
     \<Rightarrow> string \<Rightarrow> string \<Rightarrow> TeamMember list \<Rightarrow> http_req list
     \<Rightarrow> (go_error + PublicApiMembershipAddResponse) \<times> http_req list" where
  "AddTeamMembers tr decode c orgID teamID members trace =
     (case makeRequestWithHeaders tr c ''POST''
             (''/public/teams/v1/org/'' @ orgID @ ''/teams/'' @ teamID @ ''/members/add'')
             (Some (marshal_members_payload members)) [(''Accept'', ''*/*'')] trace of
        (Inl err, trace') \<Rightarrow> (Inl (''error adding team members: '' @ err), trace')
      | (Inr resp, trace') \<Rightarrow>
          if StatusCode resp \<noteq> StatusOK
          then (Inl (api_error ''API error adding team members: '' resp), trace')
          else (case decode (Body resp) of
                  Inl err \<Rightarrow> (Inl (''error decoding add members response: '' @ err), trace')
                | Inr addResponse \<Rightarrow> (Inr addResponse, trace')))"

definition RemoveTeamMembers ::
  "transport \<Rightarrow> (string \<Rightarrow> go_error + PublicApiMembershipRemoveResponse) \<Rightarrow> AtlassianClient
     \<Rightarrow> string \<Rightarrow> string \<Rightarrow> TeamMember list \<Rightarrow> http_req list
     \<Rightarrow> (go_error + PublicApiMembershipRemoveResponse) \<times> http_req list" where
  "RemoveTeamMembers tr decode c orgID teamID members trace =
     (case makeRequestWithHeaders tr c ''POST''
             (''/public/teams/v1/org/'' @ orgID @ ''/teams/'' @ teamID @ ''/members/remove'')
             (Some (marshal_members_payload members)) [(''Accept'', ''*/*'')] trace of
        (Inl err, trace') \<Rightarrow> (Inl (''error removing team members: '' @ err), trace')
      | (Inr resp, trace') \<Rightarrow>
          if StatusCode resp \<noteq> StatusOK
          then (Inl (api_error ''API error removing team members: '' resp), trace')
          else (case decode (Body resp) of
                  Inl err \<Rightarrow> (Inl (''error decoding remove members response: '' @ err), trace')
                | Inr removeResponse \<Rightarrow> (Inr removeResponse, trace')))"

section \<open>The resource reconciler (resource\_team.go)\<close>

text \<open>
  The values of the Terraform plugin framework: a string or a set is null, unknown or
  known; \<^verbatim>\<open>ValueString\<close> gives the empty string for the first two. Diagnostics are an
  ordered list of errors and warnings, each a summary and a detail.
\<close>

datatype tf_string = StringNull | StringUnknown | StringValue string

fun ValueString :: "tf_string \<Rightarrow> string" where
  "ValueString (StringValue s) = s"
| "ValueString StringNull = []"
| "ValueString StringUnknown = []"

datatype 'a tf_set = SetNull | SetUnknown | SetValue "'a list"

datatype diagnostic = ErrorDiagnostic string string | WarningDiagnostic string string

fun is_error :: "diagnostic \<Rightarrow> bool" where
  "is_error (ErrorDiagnostic summary detail) = True"
| "is_error (WarningDiagnostic summary detail) = False"

definition HasError :: "diagnostic list \<Rightarrow> bool" where
  "HasError ds = list_ex is_error ds"

record TeamMemberModel =
  mm_AccountID :: tf_string

record TeamResourceModel =
  m_ID :: tf_string
  m_DisplayName :: tf_string
  m_Description :: tf_string
  m_TeamType :: tf_string
  m_SiteId :: tf_string
  m_OrganizationId :: tf_string
  m_CreatorId :: tf_string
  m_State :: tf_string
  m_Members :: "TeamMemberModel tf_set"

text \<open>
  A request carries the plan and the prior state; reading either into the model
  (\<^verbatim>\<open>req.Plan.Get\<close>, \<^verbatim>\<open>req.State.Get\<close>) gives diagnostics and the model. A response
  carries the diagnostics so far and the state to keep: \<open>None\<close> after
  \<^verbatim>\<open>RemoveResource\<close>.
\<close>

record 'm resource_request =
  req_Plan :: "diagnostic list \<times> 'm"
  req_State :: "diagnostic list \<times> 'm"

record 'm resource_response =
  Diagnostics :: "diagnostic list"
  resp_State :: "'m option"

definition Append :: "diagnostic list \<Rightarrow> 'm resource_response \<Rightarrow> 'm resource_response" where
  "Append ds resp = resp\<lparr>Diagnostics := Diagnostics resp @ ds\<rparr>"

definition AddError :: "string \<Rightarrow> string \<Rightarrow> 'm resource_response \<Rightarrow> 'm resource_response" where
  "AddError summary detail resp = Append [ErrorDiagnostic summary detail] resp"

definition AddWarning :: "string \<Rightarrow> string \<Rightarrow> 'm resource_response \<Rightarrow> 'm resource_response" where
  "AddWarning summary detail resp = Append [WarningDiagnostic summary detail] resp"

text \<open>
  \<^verbatim>\<open>resp.State.Set\<close> checks the model against the schema before it stores it: a set of
  the framework has no repeated element, so a known member set that repeats an element is
  refused with an error diagnostic and the state stays as it was. The reconcilers append
  the diagnostics of \<^verbatim>\<open>State.Set\<close> to the response; \<open>State_Set\<close> is both steps, given
  the check of the model at hand.
\<close>

definition set_diagnostics :: "'a tf_set \<Rightarrow> diagnostic list" where
  "set_diagnostics s =
     (case s of
        SetValue elements \<Rightarrow>
          if distinct elements then []
          else [ErrorDiagnostic ''Duplicate Set Element'' ''This attribute contains duplicate values'']
      | SetNull \<Rightarrow> []
      | SetUnknown \<Rightarrow> [])"

definition State_Set ::
  "('m \<Rightarrow> diagnostic list) \<Rightarrow> 'm \<Rightarrow> 'm resource_response \<Rightarrow> 'm resource_response" where
  "State_Set check data resp =
     (let diags = check data
      in if HasError diags then Append diags resp
         else (Append diags resp)\<lparr>resp_State := Some data\<rparr>)"

definition RemoveResource :: "'m resource_response \<Rightarrow> 'm resource_response" where
  "RemoveResource resp = resp\<lparr>resp_State := None\<rparr>"

subsection \<open>Schema\<close>

text \<open>
  The schema, without its descriptions and plan modifiers. \<^verbatim>\<open>stringvalidator.OneOf\<close> is
  the only validator; it accepts a known string that is one of the listed values
  (case-sensitive) and lets null and unknown values pass.
\<close>

datatype string_validator = OneOf "string list"

datatype attribute =
    StringAttribute (Required: bool) (Optional: bool) (Computed: bool)
      (Validators: "string_validator list")
  | SetNestedAttribute (set_Optional: bool) (set_Computed: bool)
      (NestedObject: "(string \<times> attribute) list")

definition Schema :: "(string \<times> attribute) list" where
  "Schema =
     [(''id'', StringAttribute False False True []),
      (''display_name'', StringAttribute True False False []),
      (''description'', StringAttribute True False False []),
      (''team_type'', StringAttribute True False False
          [OneOf [''OPEN'', ''MEMBER_INVITE'', ''EXTERNAL'', ''ORG_ADMIN_MANAGED'']]),
      (''site_id'', StringAttribute False True False []),
      (''organization_id'', StringAttribute False False True []),
      (''creator_id'', StringAttribute False False True []),
      (''state'', StringAttribute False False True []),
      (''members'', SetNestedAttribute True True
          [(''account_id'', StringAttribute True False False [])])]"

fun ValidateString :: "string_validator \<Rightarrow> string \<Rightarrow> tf_string \<Rightarrow> diagnostic list" where
  "ValidateString (OneOf values) name (StringValue v) =
     (if v \<in> set values then []
      else [ErrorDiagnostic ''Invalid Attribute Value Match'' (''Attribute '' @ name @ '' value must be one of the listed values, got: '' @ v)])"
| "ValidateString (OneOf values) name StringNull = []"
| "ValidateString (OneOf values) name StringUnknown = []"

text \<open>
  Validation of one string attribute of a configuration: a required attribute must not
  be null, and every validator of the attribute is run on the value.
\<close>

definition validate_attribute :: "string \<Rightarrow> tf_string \<Rightarrow> diagnostic list" where
  "validate_attribute name v =
     (case map_of Schema name of
        Some (StringAttribute required optional computed validators) \<Rightarrow>
          (if required \<and> v = StringNull
           then [ErrorDiagnostic ''Missing required argument'' name] else [])
          @ concat (map (\<lambda>val. ValidateString val name v) validators)
      | _ \<Rightarrow> [])"

text \<open>The string attributes of the model, under their \<^verbatim>\<open>tfsdk\<close> names.\<close>

definition model_strings :: "TeamResourceModel \<Rightarrow> (string \<times> tf_string) list" where
  "model_strings data =
     [(''id'', m_ID data), (''display_name'', m_DisplayName data),
      (''description'', m_Description data), (''team_type'', m_TeamType data),
      (''site_id'', m_SiteId data), (''organization_id'', m_OrganizationId data),
      (''creator_id'', m_CreatorId data), (''state'', m_State data)]"

definition ValidateConfig :: "TeamResourceModel \<Rightarrow> diagnostic list" where
  "ValidateConfig config = concat (map (\<lambda>(name, v). validate_attribute name v) (model_strings config))"

subsection \<open>Create, Read, Update, Delete\<close>

definition Members_diags :: "TeamResourceModel \<Rightarrow> diagnostic list" where
  "Members_diags data = set_diagnostics (m_Members data)"

definition member_models :: "TeamMember list \<Rightarrow> TeamMemberModel list" where
  "member_models ms = map (\<lambda>member. \<lparr>mm_AccountID = StringValue (AccountID member)\<rparr>) ms"

definition Create ::
  "transport \<Rightarrow> (string \<Rightarrow> go_error + Team) \<Rightarrow> AtlassianClient
     \<Rightarrow> TeamResourceModel resource_request \<Rightarrow> TeamResourceModel resource_response
     \<Rightarrow> http_req list \<Rightarrow> TeamResourceModel resource_response \<times> http_req list" where
  "Create tr decode client req resp0 trace =
     (let (diags, data) = req_Plan req;
          resp = Append diags resp0
      in if HasError (Diagnostics resp) then (resp, trace)
         else
           let createReq = \<lparr>c_DisplayName = ValueString (m_DisplayName data),
                            c_Description = ValueString (m_Description data),
                            c_TeamType = ValueString (m_TeamType data),
                            c_SiteId = ValueString (m_SiteId data)\<rparr>
           in case CreateTeam tr decode client createReq trace of
                (Inl err, trace') \<Rightarrow>
                  (AddError ''Client Error'' (''Unable to create team, got error: '' @ err) resp, trace')
              | (Inr team, trace') \<Rightarrow>
                  let data = data\<lparr>m_ID := StringValue (TeamID team),
                                   m_OrganizationId := StringValue (OrganizationId team),
                                   m_CreatorId := StringValue (CreatorId team),
                                   m_State := StringValue (State team)\<rparr>;
                      data = (case Members team of
                                None \<Rightarrow> data
                              | Some ms \<Rightarrow> data\<lparr>m_Members := SetValue (member_models ms)\<rparr>)
                  in (State_Set Members_diags data resp, trace'))"

definition Read ::
  "transport \<Rightarrow> (string \<Rightarrow> go_error + Team) \<Rightarrow> AtlassianClient
     \<Rightarrow> TeamResourceModel resource_request \<Rightarrow> TeamResourceModel resource_response
     \<Rightarrow> http_req list \<Rightarrow> TeamResourceModel resource_response \<times> http_req list" where
  "Read tr decode client req resp0 trace =
     (let (diags, data) = req_State req;
          resp = Append diags resp0
      in if HasError (Diagnostics resp) then (resp, trace)
         else
           case GetTeam tr decode client (ValueString (m_ID data)) trace of
             (Inl err, trace') \<Rightarrow>
               if err = ''team not found: '' @ ValueString (m_ID data)
               then (RemoveResource resp, trace')
               else (AddError ''Client Error'' (''Unable to read team, got error: '' @ err) resp, trace')
           | (Inr team, trace') \<Rightarrow>
               let data = data\<lparr>m_DisplayName := StringValue (DisplayName team),
                                m_Description := StringValue (Description team),
                                m_TeamType := StringValue (TeamType team),
                                m_OrganizationId := StringValue (OrganizationId team),
                                m_CreatorId := StringValue (CreatorId team),
                                m_State := StringValue (State team)\<rparr>
               in (State_Set Members_diags data resp, trace'))"

definition Update ::
  "transport \<Rightarrow> (string \<Rightarrow> go_error + Team) \<Rightarrow> AtlassianClient
     \<Rightarrow> TeamResourceModel resource_request \<Rightarrow> TeamResourceModel resource_response
     \<Rightarrow> http_req list \<Rightarrow> TeamResourceModel resource_response \<times> http_req list" where
  "Update tr decode client req resp0 trace =
     (let (diags, data) = req_Plan req;
          resp = Append diags resp0
      in if HasError (Diagnostics resp) then (resp, trace)
         else
           let updateReq = \<lparr>u_DisplayName = ValueString (m_DisplayName data),
                            u_Description = ValueString (m_Description data)\<rparr>
           in case UpdateTeam tr decode client (ValueString (m_ID data)) updateReq trace of
                (Inl err, trace') \<Rightarrow>
                  (AddError ''Client Error'' (''Unable to update team, got error: '' @ err) resp, trace')
              | (Inr team, trace') \<Rightarrow>
                  let data = data\<lparr>m_DisplayName := StringValue (DisplayName team),
                                   m_Description := StringValue (Description team),
                                   m_TeamType := StringValue (TeamType team),
                                   m_OrganizationId := StringValue (OrganizationId team),
                                   m_State := StringValue (State team)\<rparr>
                  in (State_Set Members_diags data resp, trace'))"

definition Delete ::
  "transport \<Rightarrow> AtlassianClient
     \<Rightarrow> TeamResourceModel resource_request \<Rightarrow> TeamResourceModel resource_response
     \<Rightarrow> http_req list \<Rightarrow> TeamResourceModel resource_response \<times> http_req list" where
  "Delete tr client req resp0 trace =
     (let (diags, data) = req_State req;
          resp = Append diags resp0
      in if HasError (Diagnostics resp) then (resp, trace)
         else
           case DeleteTeam tr client (ValueString (m_ID data)) trace of
             (Some err, trace') \<Rightarrow>
               (AddError ''Client Error'' (''Unable to delete team, got error: '' @ err) resp, trace')
           | (None, trace') \<Rightarrow> (resp, trace'))"

text \<open>
  Terraform validates a configuration against the schema before it asks the provider to
  create the resource; a configuration with a validation error never reaches \<^verbatim>\<open>Create\<close>.
  The plan handed to \<^verbatim>\<open>Create\<close> agrees with the configuration on the attributes
  \<^verbatim>\<open>Create\<close> reads (display name, description, team type, site), so the configuration
  stands for it here.
\<close>

definition validate_then_Create ::
  "transport \<Rightarrow> (string \<Rightarrow> go_error + Team) \<Rightarrow> AtlassianClient
     \<Rightarrow> TeamResourceModel \<Rightarrow> TeamResourceModel resource_response
     \<Rightarrow> http_req list \<Rightarrow> TeamResourceModel resource_response \<times> http_req list" where
  "validate_then_Create tr decode client config resp0 trace =
     (let ds = ValidateConfig config
      in if HasError ds then (Append ds resp0, trace)
         else Create tr decode client \<lparr>req_Plan = ([], config), req_State = ([], config)\<rparr> resp0 trace)"

section \<open>The legacy generation (name/organization model)\<close>

text \<open>
  The repository also holds the earlier client and reconciler, which the current ones
  replaced. They manage members one call at a time. Their types carry the prefix
  \<open>legacy\<close> here; the Go names are the same as in the current generation.
\<close>

record legacy_AtlassianClient =
  l_APIToken :: string
  l_Email :: string
  l_Organization :: string
  l_BaseURL :: string

record legacy_TeamMember =
  lm_AccountID :: string
  lm_Email :: string
  lm_Role :: string

record legacy_Team =
  lt_ID :: string
  lt_Name :: string
  lt_Description :: string
  lt_Type :: string
  lt_Organization :: string
  lt_Members :: "legacy_TeamMember list option"
  lt_CreatedAt :: string
  lt_UpdatedAt :: string

record legacy_CreateTeamRequest =
  lc_Name :: string
  lc_Description :: string
  lc_Type :: string
  lc_Organization :: string

record legacy_UpdateTeamRequest =
  lu_Name :: string
  lu_Description :: string

definition marshal_legacy_TeamMember :: "legacy_TeamMember \<Rightarrow> json" where
  "marshal_legacy_TeamMember m =
     JObject ([(''accountId'', JString (lm_AccountID m))]
              @ omitempty ''email'' (lm_Email m) @ omitempty ''role'' (lm_Role m))"

definition marshal_legacy_CreateTeamRequest :: "legacy_CreateTeamRequest \<Rightarrow> json" where
  "marshal_legacy_CreateTeamRequest r =
     JObject ([(''name'', JString (lc_Name r))] @ omitempty ''description'' (lc_Description r)
              @ [(''type'', JString (lc_Type r)), (''organization'', JString (lc_Organization r))])"

definition marshal_legacy_UpdateTeamRequest :: "legacy_UpdateTeamRequest \<Rightarrow> json" where
  "marshal_legacy_UpdateTeamRequest r =
     JObject (omitempty ''name'' (lu_Name r) @ omitempty ''description'' (lu_Description r))"

text \<open>
  \<^verbatim>\<open>req.SetBasicAuth\<close> sends the standard base64 encoding of \<^verbatim>\<open>email:token\<close>.
\<close>

definition base64_digit :: "nat \<Rightarrow> char" where
  "base64_digit n = ''ABCDEFGHIJKLMNOPQRSTUVWXYZabcdefghijklmnopqrstuvwxyz0123456789+/'' ! n"

fun base64 :: "nat list \<Rightarrow> string" where
  "base64 [] = []"
| "base64 [a] = [base64_digit (a div 4), base64_digit ((a mod 4) * 16), CHR ''='', CHR ''='']"
| "base64 [a, b] =
     [base64_digit (a div 4), base64_digit ((a mod 4) * 16 + b div 16),
      base64_digit ((b mod 16) * 4), CHR ''='']"
| "base64 (a # b # c # rest) =
     [base64_digit (a div 4), base64_digit ((a mod 4) * 16 + b div 16),
      base64_digit ((b mod 16) * 4 + c div 64), base64_digit (c mod 64)] @ base64 rest"

definition basicAuth :: "string \<Rightarrow> string \<Rightarrow> string" where
  "basicAuth username password =
     ''Basic '' @ base64 (map of_char (username @ '':'' @ password))"

definition legacy_new_request ::
  "legacy_AtlassianClient \<Rightarrow> string \<Rightarrow> string \<Rightarrow> json option \<Rightarrow> http_req" where
  "legacy_new_request c method path body =
     \<lparr>Method = method, URL = l_BaseURL c @ path,
      Header = [(''Authorization'', basicAuth (l_Email c) (l_APIToken c)),
                (''Content-Type'', ''application/json''),
                (''Accept'', ''application/json'')],
      ReqBody = body\<rparr>"

definition legacy_makeRequest ::
  "transport \<Rightarrow> legacy_AtlassianClient \<Rightarrow> string \<Rightarrow> string \<Rightarrow> json option
     \<Rightarrow> http_req list \<Rightarrow> (go_error + Response) \<times> http_req list" where
  "legacy_makeRequest tr c method path body trace =
     (let req = legacy_new_request c method path body
      in (case tr trace req of
            Malformed e \<Rightarrow> Inl (''error creating request: '' @ e)
          | Failed e \<Rightarrow> Inl (''error making request: '' @ e)
          | Answered r \<Rightarrow> Inr r,
          trace @ [req]))"

definition legacy_CreateTeam ::
  "transport \<Rightarrow> (string \<Rightarrow> go_error + legacy_Team) \<Rightarrow> legacy_AtlassianClient
     \<Rightarrow> legacy_CreateTeamRequest \<Rightarrow> http_req list \<Rightarrow> (go_error + legacy_Team) \<times> http_req list" where
  "legacy_CreateTeam tr decode c team trace =
     (case legacy_makeRequest tr c ''POST'' (''/admin/v1/orgs/'' @ l_Organization c @ ''/teams'')
             (Some (marshal_legacy_CreateTeamRequest team)) trace of
        (Inl err, trace') \<Rightarrow> (Inl (''error creating team: '' @ err), trace')
      | (Inr resp, trace') \<Rightarrow>
          if StatusCode resp \<noteq> StatusCreated
          then (Inl (api_error ''API error creating team: '' resp), trace')
          else (case decode (Body resp) of
                  Inl err \<Rightarrow> (Inl (''error decoding response: '' @ err), trace')
                | Inr createdTeam \<Rightarrow> (Inr createdTeam, trace')))"

definition legacy_UpdateTeam ::
  "transport \<Rightarrow> (string \<Rightarrow> go_error + legacy_Team) \<Rightarrow> legacy_AtlassianClient \<Rightarrow> string
     \<Rightarrow> legacy_UpdateTeamRequest \<Rightarrow> http_req list \<Rightarrow> (go_error + legacy_Team) \<times> http_req list" where
  "legacy_UpdateTeam tr decode c teamID updateReq trace =
     (case legacy_makeRequest tr c ''PUT'' (''/admin/v1/orgs/'' @ l_Organization c @ ''/teams/'' @ teamID)
             (Some (marshal_legacy_UpdateTeamRequest updateReq)) trace of
        (Inl err, trace') \<Rightarrow> (Inl (''error updating team: '' @ err), trace')
      | (Inr resp, trace') \<Rightarrow>
          if StatusCode resp = StatusNotFound
          then (Inl (''team not found: '' @ teamID), trace')
          else if StatusCode resp \<noteq> StatusOK
          then (Inl (api_error ''API error updating team: '' resp), trace')
          else (case decode (Body resp) of
                  Inl err \<Rightarrow> (Inl (''error decoding response: '' @ err), trace')
                | Inr updatedTeam \<Rightarrow> (Inr updatedTeam, trace')))"

definition AddTeamMember ::
  "transport \<Rightarrow> legacy_AtlassianClient \<Rightarrow> string \<Rightarrow> legacy_TeamMember
     \<Rightarrow> http_req list \<Rightarrow> go_error option \<times> http_req list" where
  "AddTeamMember tr c teamID member trace =
     (case legacy_makeRequest tr c ''POST''
             (''/admin/v1/orgs/'' @ l_Organization c @ ''/teams/'' @ teamID @ ''/members'')
             (Some (marshal_legacy_TeamMember member)) trace of
        (Inl err, trace') \<Rightarrow> (Some (''error adding team member: '' @ err), trace')
      | (Inr resp, trace') \<Rightarrow>
          if StatusCode resp \<noteq> StatusCreated \<and> StatusCode resp \<noteq> StatusOK
          then (Some (api_error ''API error adding team member: '' resp), trace')
          else (None, trace'))"

definition RemoveTeamMember ::
  "transport \<Rightarrow> legacy_AtlassianClient \<Rightarrow> string \<Rightarrow> string
     \<Rightarrow> http_req list \<Rightarrow> go_error option \<times> http_req list" where
  "RemoveTeamMember tr c teamID accountID trace =
     (case legacy_makeRequest tr c ''DELETE''
             (''/admin/v1/orgs/'' @ l_Organization c @ ''/teams/'' @ teamID @ ''/members/'' @ accountID)
             None trace of
        (Inl err, trace') \<Rightarrow> (Some (''error removing team member: '' @ err), trace')
      | (Inr resp, trace') \<Rightarrow>
          if StatusCode resp = StatusNotFound
          then (None, trace')
          else if StatusCode resp \<noteq> StatusNoContent \<and> StatusCode resp \<noteq> StatusOK
          then (Some (api_error ''API error removing team member: '' resp), trace')
          else (None, trace'))"


subsection \<open>The legacy reconciler\<close>

record legacy_TeamMemberModel =
  lmm_AccountID :: tf_string
  lmm_Email :: tf_string
  lmm_Role :: tf_string

record legacy_TeamResourceModel =
  lr_ID :: tf_string
  lr_Name :: tf_string
  lr_Description :: tf_string
  lr_Type :: tf_string
  lr_Organization :: tf_string
  lr_Members :: "legacy_TeamMemberModel tf_set"
  lr_CreatedAt :: tf_string
  lr_UpdatedAt :: tf_string


definition to_TeamMember :: "legacy_TeamMemberModel \<Rightarrow> legacy_TeamMember" where
  "to_TeamMember member =
     \<lparr>lm_AccountID = ValueString (lmm_AccountID member),
      lm_Email = ValueString (lmm_Email member),
      lm_Role = ValueString (lmm_Role member)\<rparr>"

text \<open>
  The loop of \<^verbatim>\<open>Create\<close> over the planned members, in the order of the slice: one
  \<^verbatim>\<open>AddTeamMember\<close> call each, a failure becoming a warning. The elements of a known set
  are taken to be known objects, so \<^verbatim>\<open>ElementsAs\<close> gives them without diagnostics.
\<close>

fun Create_add_members ::
  "transport \<Rightarrow> legacy_AtlassianClient \<Rightarrow> string \<Rightarrow> legacy_TeamMemberModel list
     \<Rightarrow> legacy_TeamResourceModel resource_response \<Rightarrow> http_req list
     \<Rightarrow> legacy_TeamResourceModel resource_response \<times> http_req list" where
  "Create_add_members tr client teamID [] resp trace = (resp, trace)"
| "Create_add_members tr client teamID (member # members) resp trace =
     (let teamMember = to_TeamMember member
      in case AddTeamMember tr client teamID teamMember trace of
           (Some err, trace') \<Rightarrow>
             Create_add_members tr client teamID members
               (AddWarning ''Member Addition Failed''
                  (''Unable to add member '' @ lm_AccountID teamMember @ '' to team: '' @ err) resp)
               trace'
         | (None, trace') \<Rightarrow> Create_add_members tr client teamID members resp trace')"




text \<open>
  The two loops of \<^verbatim>\<open>Update\<close>, each over the keys of a map in the order the Go runtime
  picks for the \<^verbatim>\<open>range\<close>: the order is a parameter of \<open>legacy_Update\<close>.
\<close>

fun Update_remove_members ::
  "transport \<Rightarrow> legacy_AtlassianClient \<Rightarrow> string \<Rightarrow> (string \<times> legacy_TeamMemberModel) list
     \<Rightarrow> string list \<Rightarrow> legacy_TeamResourceModel resource_response \<Rightarrow> http_req list
     \<Rightarrow> legacy_TeamResourceModel resource_response \<times> http_req list" where
  "Update_remove_members tr client teamID new [] resp trace = (resp, trace)"
| "Update_remove_members tr client teamID new (accountID # keys) resp trace =
     (if map_of new accountID = None
      then (case RemoveTeamMember tr client teamID accountID trace of
              (Some err, trace') \<Rightarrow>
                Update_remove_members tr client teamID new keys
                  (AddWarning ''Member Removal Failed''
                     (''Unable to remove member '' @ accountID @ '' from team: '' @ err) resp)
                  trace'
            | (None, trace') \<Rightarrow> Update_remove_members tr client teamID new keys resp trace')
      else Update_remove_members tr client teamID new keys resp trace)"

fun Update_add_members ::
  "transport \<Rightarrow> legacy_AtlassianClient \<Rightarrow> string \<Rightarrow> (string \<times> legacy_TeamMember) list
     \<Rightarrow> (string \<times> legacy_TeamMemberModel) list
     \<Rightarrow> legacy_TeamResourceModel resource_response \<Rightarrow> http_req list
     \<Rightarrow> legacy_TeamResourceModel resource_response \<times> http_req list" where
  "Update_add_members tr client teamID current [] resp trace = (resp, trace)"
| "Update_add_members tr client teamID current ((accountID, member) # entries) resp trace =
     (if map_of current accountID = None
      then (case AddTeamMember tr client teamID (to_TeamMember member) trace of
              (Some err, trace') \<Rightarrow>
                Update_add_members tr client teamID current entries
                  (AddWarning ''Member Addition Failed''
                     (''Unable to add member '' @ accountID @ '' to team: '' @ err) resp)
                  trace'
            | (None, trace') \<Rightarrow> Update_add_members tr client teamID current entries resp trace')
      else Update_add_members tr client teamID current entries resp trace)"



section \<open>The requests behind the calls\<close>

text \<open>
  The request each call hands to the transport, named so that a trace can be read as a
  list of calls.
\<close>

definition CreateTeam_request :: "AtlassianClient \<Rightarrow> CreateTeamRequest \<Rightarrow> http_req" where
  "CreateTeam_request c team =
     new_request c ''POST'' (getTeamAPIPath c ''/teams/'') (Some (marshal_CreateTeamRequest team)) []"

definition GetTeam_request :: "AtlassianClient \<Rightarrow> string \<Rightarrow> http_req" where
  "GetTeam_request c teamID = new_request c ''GET'' (getTeamAPIPath c (''/teams/'' @ teamID)) None []"

definition UpdateTeam_request :: "AtlassianClient \<Rightarrow> string \<Rightarrow> UpdateTeamRequest \<Rightarrow> http_req" where
  "UpdateTeam_request c teamID updateReq =
     new_request c ''PATCH'' (getTeamAPIPath c (''/teams/'' @ teamID))
       (Some (marshal_UpdateTeamRequest updateReq)) []"

definition DeleteTeam_request :: "AtlassianClient \<Rightarrow> string \<Rightarrow> http_req" where
  "DeleteTeam_request c teamID = new_request c ''DELETE'' (getTeamAPIPath c (''/teams/'' @ teamID)) None []"

definition ArchiveTeams_request :: "AtlassianClient \<Rightarrow> string \<Rightarrow> string list \<Rightarrow> http_req" where
  "ArchiveTeams_request c orgID teamIDs =
     new_request c ''POST'' (''/public/teams/v1/org/'' @ orgID @ ''/teams/archive'')
       (Some (marshal_PublicApiBulkOperationRequest teamIDs)) []"

definition UnarchiveTeams_request :: "AtlassianClient \<Rightarrow> string \<Rightarrow> string list \<Rightarrow> http_req" where
  "UnarchiveTeams_request c orgID teamIDs =
     new_request c ''POST'' (''/public/teams/v1/org/'' @ orgID @ ''/teams/unarchive'')
       (Some (marshal_PublicApiBulkOperationRequest teamIDs)) []"

definition AddTeamMembers_request :: "AtlassianClient \<Rightarrow> string \<Rightarrow> string \<Rightarrow> TeamMember list \<Rightarrow> http_req" where
  "AddTeamMembers_request c orgID teamID members =
     new_request c ''POST'' (''/public/teams/v1/org/'' @ orgID @ ''/teams/'' @ teamID @ ''/members/add'')
       (Some (marshal_members_payload members)) [(''Accept'', ''*/*'')]"

definition RemoveTeamMembers_request :: "AtlassianClient \<Rightarrow> string \<Rightarrow> string \<Rightarrow> TeamMember list \<Rightarrow> http_req" where
  "RemoveTeamMembers_request c orgID teamID members =
     new_request c ''POST'' (''/public/teams/v1/org/'' @ orgID @ ''/teams/'' @ teamID @ ''/members/remove'')
       (Some (marshal_members_payload members)) [(''Accept'', ''*/*'')]"



text \<open>The keys of a JSON object, in the order they are written.\<close>

fun json_keys :: "json \<Rightarrow> string list" where
  "json_keys (JObject kvs) = map fst kvs"
| "json_keys JNull = []"
| "json_keys (JBool b) = []"
| "json_keys (JNumber n) = []"
| "json_keys (JString s) = []"
| "json_keys (JArray xs) = []"





section \<open>Example inputs\<close>

text \<open>
  Concrete clients, servers and plans, on which the theorems below are instantiated: a
  server that gives the same answer to every request, a decoder that yields a fixed value.
\<close>

definition example_client :: AtlassianClient where
  "example_client =
     \<lparr>APIToken = ''secret'', Email = ''dev@example.com'', Organization = ''acme'',
      SiteId = [], OrgId = ''org-1'', BaseURL = ''https://api.atlassian.com''\<rparr>"

definition answers :: "Response \<Rightarrow> transport" where
  "answers r trace req = Answered r"

definition decodes_to :: "'a \<Rightarrow> string \<Rightarrow> go_error + 'a" where
  "decodes_to x body = Inr x"

definition status :: "int \<Rightarrow> string \<Rightarrow> Response" where
  "status code text = \<lparr>StatusCode = code, Status = text, Body = []\<rparr>"

definition member_A :: TeamMemberModel where "member_A = \<lparr>mm_AccountID = StringValue ''A''\<rparr>"
definition member_B :: TeamMemberModel where "member_B = \<lparr>mm_AccountID = StringValue ''B''\<rparr>"
definition member_C :: TeamMemberModel where "member_C = \<lparr>mm_AccountID = StringValue ''C''\<rparr>"

definition example_team :: Team where
  "example_team =
     \<lparr>TeamID = ''T1'', DisplayName = ''Dev Team'', Description = [], TeamType = ''OPEN'',
      OrganizationId = ''org-1'', CreatorId = ''U1'', State = ''ACTIVE'',
      Members = None, UserPermissions = None\<rparr>"

definition example_model :: "TeamMemberModel list \<Rightarrow> TeamResourceModel" where
  "example_model members =
     \<lparr>m_ID = StringValue ''T1'', m_DisplayName = StringValue ''Dev Team'',
      m_Description = StringValue [], m_TeamType = StringValue ''OPEN'', m_SiteId = StringNull,
      m_OrganizationId = StringValue ''org-1'', m_CreatorId = StringValue ''U1'',
      m_State = StringValue ''ACTIVE'', m_Members = SetValue members\<rparr>"

definition tracked :: "'m \<Rightarrow> 'm resource_response" where
  "tracked data = \<lparr>Diagnostics = [], resp_State = Some data\<rparr>"

definition untracked :: "'m resource_response" where
  "untracked = \<lparr>Diagnostics = [], resp_State = None\<rparr>"

definition request_with :: "'m \<Rightarrow> 'm \<Rightarrow> 'm resource_request" where
  "request_with plan state = \<lparr>req_Plan = ([], plan), req_State = ([], state)\<rparr>"

definition example_config :: "string \<Rightarrow> string \<Rightarrow> string \<Rightarrow> TeamResourceModel" where
  "example_config name description type =
     \<lparr>m_ID = StringNull, m_DisplayName = StringValue name,
      m_Description = StringValue description, m_TeamType = StringValue type, m_SiteId = StringNull,
      m_OrganizationId = StringNull, m_CreatorId = StringNull,
      m_State = StringNull, m_Members = SetNull\<rparr>"

definition example_bulk_response :: PublicApiBulkOperationResponse where
  "example_bulk_response =
     \<lparr>b_Errors = [\<lparr>be_Code = ''TEAM_NOT_FOUND'', be_Message = ''no such team'', be_TeamID = ''T3''\<rparr>],
      SuccessfulTeamIds = [''T1'', ''T2'']\<rparr>"

definition example_remove_response :: PublicApiMembershipRemoveResponse where
  "example_remove_response =
     \<lparr>r_Errors = [\<lparr>e_AccountID = ''C'', e_Code = ''USER_NOT_FOUND'', e_Message = ''no such user''\<rparr>]\<rparr>"

definition example_add_response :: PublicApiMembershipAddResponse where
  "example_add_response =
     \<lparr>a_Errors = [\<lparr>e_AccountID = ''C'', e_Code = ''USER_NOT_FOUND'', e_Message = ''no such user''\<rparr>],
      a_Members = [\<lparr>AccountID = ''A''\<rparr>, \<lparr>AccountID = ''B''\<rparr>]\<rparr>"








section \<open>Properties\<close>

subsection \<open>What each call does, by the outcome of its request\<close>

lemma makeRequestWithHeaders_eq:
  "makeRequestWithHeaders tr c m p b hs trace =
     (case tr trace (new_request c m p b hs) of
        Malformed e \<Rightarrow> Inl (''error creating request: '' @ e)
      | Failed e \<Rightarrow> Inl (''error making request: '' @ e)
      | Answered r \<Rightarrow> Inr r,
      trace @ [new_request c m p b hs])"
  by (simp add: makeRequestWithHeaders_def Let_def)

lemma makeRequest_eq:
  "makeRequest tr c m p b trace =
     (case tr trace (new_request c m p b []) of
        Malformed e \<Rightarrow> Inl (''error creating request: '' @ e)
      | Failed e \<Rightarrow> Inl (''error making request: '' @ e)
      | Answered r \<Rightarrow> Inr r,
      trace @ [new_request c m p b []])"
  by (simp add: makeRequest_def makeRequestWithHeaders_eq)

lemma legacy_makeRequest_eq:
  "legacy_makeRequest tr c m p b trace =
     (case tr trace (legacy_new_request c m p b) of
        Malformed e \<Rightarrow> Inl (''error creating request: '' @ e)
      | Failed e \<Rightarrow> Inl (''error making request: '' @ e)
      | Answered r \<Rightarrow> Inr r,
      trace @ [legacy_new_request c m p b])"
  by (simp add: legacy_makeRequest_def Let_def)

lemmas status_defs = StatusOK_def StatusCreated_def StatusNoContent_def StatusNotFound_def

lemma DeleteTeam_eq:
  "DeleteTeam tr c teamID trace =
     (case tr trace (DeleteTeam_request c teamID) of
        Malformed e \<Rightarrow> Some (''error deleting team: error creating request: '' @ e)
      | Failed e \<Rightarrow> Some (''error deleting team: error making request: '' @ e)
      | Answered r \<Rightarrow>
          if StatusCode r \<in> {200, 204, 404} then None
          else Some (api_error ''API error deleting team: '' r),
      trace @ [DeleteTeam_request c teamID])"
  by (simp add: DeleteTeam_def makeRequest_eq DeleteTeam_request_def status_defs
      split: http_outcome.splits)

lemma Delete_eq:
  assumes "\<not> HasError (Diagnostics resp0 @ fst (req_State req))"
  shows "Delete tr client req resp0 trace =
     (case fst (DeleteTeam tr client (ValueString (m_ID (snd (req_State req)))) trace) of
        Some err \<Rightarrow> AddError ''Client Error'' (''Unable to delete team, got error: '' @ err)
                      (Append (fst (req_State req)) resp0)
      | None \<Rightarrow> Append (fst (req_State req)) resp0,
      trace @ [DeleteTeam_request client (ValueString (m_ID (snd (req_State req))))])"
  using assms
  by (simp add: Delete_def split_beta Let_def Append_def DeleteTeam_eq split: option.splits)

lemma HasError_append [simp]: "HasError (xs @ ys) \<longleftrightarrow> HasError xs \<or> HasError ys"
  by (simp add: HasError_def)

lemma HasError_simps [simp]:
  "HasError [] = False"
  "HasError (ErrorDiagnostic s d # ds) = True"
  "HasError (WarningDiagnostic s d # ds) = HasError ds"
  by (simp_all add: HasError_def)

lemma GetTeam_eq:
  "GetTeam tr decode c teamID trace =
     (case tr trace (GetTeam_request c teamID) of
        Malformed e \<Rightarrow> Inl (''error getting team: error creating request: '' @ e)
      | Failed e \<Rightarrow> Inl (''error getting team: error making request: '' @ e)
      | Answered r \<Rightarrow>
          if StatusCode r = 404 then Inl (''team not found: '' @ teamID)
          else if StatusCode r \<noteq> 200 then Inl (api_error ''API error getting team: '' r)
          else (case decode (Body r) of
                  Inl err \<Rightarrow> Inl (''error decoding response: '' @ err)
                | Inr team \<Rightarrow> Inr team),
      trace @ [GetTeam_request c teamID])"
  by (simp add: GetTeam_def makeRequest_eq GetTeam_request_def status_defs
      split: http_outcome.splits sum.splits)

lemma ArchiveTeams_eq:
  "ArchiveTeams tr decode c orgID teamIDs trace =
     (if length teamIDs = 0 \<or> length teamIDs > 100
      then (Inl (''teamIDs must contain between 1 and 100 items, got '' @ decimal (length teamIDs)), trace)
      else (case tr trace (ArchiveTeams_request c orgID teamIDs) of
              Malformed e \<Rightarrow> Inl (''error archiving teams: error creating request: '' @ e)
            | Failed e \<Rightarrow> Inl (''error archiving teams: error making request: '' @ e)
            | Answered r \<Rightarrow>
                if StatusCode r \<noteq> 200 then Inl (api_error ''API error archiving teams: '' r)
                else (case decode (Body r) of
                        Inl err \<Rightarrow> Inl (''error decoding archive response: '' @ err)
                      | Inr archiveResponse \<Rightarrow> Inr archiveResponse),
            trace @ [ArchiveTeams_request c orgID teamIDs]))"
  by (simp add: ArchiveTeams_def makeRequest_eq ArchiveTeams_request_def status_defs
      split: http_outcome.splits sum.splits)

lemma UnarchiveTeams_eq:
  "UnarchiveTeams tr decode c orgID teamIDs trace =
     (if length teamIDs = 0 \<or> length teamIDs > 100
      then (Inl (''teamIDs must contain between 1 and 100 items, got '' @ decimal (length teamIDs)), trace)
      else (case tr trace (UnarchiveTeams_request c orgID teamIDs) of
              Malformed e \<Rightarrow> Inl (''error unarchiving teams: error creating request: '' @ e)
            | Failed e \<Rightarrow> Inl (''error unarchiving teams: error making request: '' @ e)
            | Answered r \<Rightarrow>
                if StatusCode r \<noteq> 200 then Inl (api_error ''API error unarchiving teams: '' r)
                else (case decode (Body r) of
                        Inl err \<Rightarrow> Inl (''error decoding unarchive response: '' @ err)
                      | Inr unarchiveResponse \<Rightarrow> Inr unarchiveResponse),
            trace @ [UnarchiveTeams_request c orgID teamIDs]))"
  by (simp add: UnarchiveTeams_def makeRequest_eq UnarchiveTeams_request_def status_defs
      split: http_outcome.splits sum.splits)

lemma AddTeamMembers_eq:
  "AddTeamMembers tr decode c orgID teamID members trace =
     (case tr trace (AddTeamMembers_request c orgID teamID members) of
        Malformed e \<Rightarrow> Inl (''error adding team members: error creating request: '' @ e)
      | Failed e \<Rightarrow> Inl (''error adding team members: error making request: '' @ e)
      | Answered r \<Rightarrow>
          if StatusCode r \<noteq> 200 then Inl (api_error ''API error adding team members: '' r)
          else (case decode (Body r) of
                  Inl err \<Rightarrow> Inl (''error decoding add members response: '' @ err)
                | Inr addResponse \<Rightarrow> Inr addResponse),
      trace @ [AddTeamMembers_request c orgID teamID members])"
  by (simp add: AddTeamMembers_def makeRequestWithHeaders_eq AddTeamMembers_request_def status_defs
      split: http_outcome.splits sum.splits)

lemma RemoveTeamMembers_eq:
  "RemoveTeamMembers tr decode c orgID teamID members trace =
     (case tr trace (RemoveTeamMembers_request c orgID teamID members) of
        Malformed e \<Rightarrow> Inl (''error removing team members: error creating request: '' @ e)
      | Failed e \<Rightarrow> Inl (''error removing team members: error making request: '' @ e)
      | Answered r \<Rightarrow>
          if StatusCode r \<noteq> 200 then Inl (api_error ''API error removing team members: '' r)
          else (case decode (Body r) of
                  Inl err \<Rightarrow> Inl (''error decoding remove members response: '' @ err)
                | Inr removeResponse \<Rightarrow> Inr removeResponse),
      trace @ [RemoveTeamMembers_request c orgID teamID members])"
  by (simp add: RemoveTeamMembers_def makeRequestWithHeaders_eq RemoveTeamMembers_request_def status_defs
      split: http_outcome.splits sum.splits)

lemma UpdateTeam_snd:
  "snd (UpdateTeam tr decode c teamID updateReq trace) = trace @ [UpdateTeam_request c teamID updateReq]"
  by (simp add: UpdateTeam_def makeRequest_eq UpdateTeam_request_def split: sum.splits)

lemma CreateTeam_snd:
  "snd (CreateTeam tr decode c team trace) = trace @ [CreateTeam_request c team]"
  by (simp add: CreateTeam_def makeRequest_eq CreateTeam_request_def split: sum.splits)

lemma Update_snd:
  "snd (Update tr decode client req resp0 trace) =
     (if HasError (Diagnostics resp0 @ fst (req_Plan req)) then trace
      else snd (UpdateTeam tr decode client (ValueString (m_ID (snd (req_Plan req))))
                  \<lparr>u_DisplayName = ValueString (m_DisplayName (snd (req_Plan req))),
                   u_Description = ValueString (m_Description (snd (req_Plan req)))\<rparr> trace))"
  by (simp add: Update_def split_beta Let_def Append_def split: sum.splits)

lemma Create_snd:
  "snd (Create tr decode client req resp0 trace) =
     (if HasError (Diagnostics resp0 @ fst (req_Plan req)) then trace
      else snd (CreateTeam tr decode client
                  \<lparr>c_DisplayName = ValueString (m_DisplayName (snd (req_Plan req))),
                   c_Description = ValueString (m_Description (snd (req_Plan req))),
                   c_TeamType = ValueString (m_TeamType (snd (req_Plan req))),
                   c_SiteId = ValueString (m_SiteId (snd (req_Plan req)))\<rparr> trace))"
  by (simp add: Create_def split_beta Let_def Append_def split: sum.splits)

lemma validate_team_type:
  "validate_attribute ''team_type'' (StringValue v) =
     (if v \<in> {''OPEN'', ''MEMBER_INVITE'', ''EXTERNAL'', ''ORG_ADMIN_MANAGED''} then []
      else [ErrorDiagnostic ''Invalid Attribute Value Match''
              (''Attribute team_type value must be one of the listed values, got: '' @ v)])"
  by (simp add: validate_attribute_def Schema_def)

lemma validate_unvalidated:
  "validate_attribute ''id'' v = []"
  "validate_attribute ''display_name'' (StringValue s) = []"
  "validate_attribute ''description'' (StringValue s) = []"
  "validate_attribute ''site_id'' v = []"
  "validate_attribute ''organization_id'' v = []"
  "validate_attribute ''creator_id'' v = []"
  "validate_attribute ''state'' v = []"
  by (simp_all add: validate_attribute_def Schema_def)

lemma int32_compare:
  fixes x :: "32 word"
  shows "0 <s x \<longleftrightarrow> 0 < sint x"
    and "300 <s x \<longleftrightarrow> 300 < sint x"
    and "x \<le>s 50 \<longleftrightarrow> sint x \<le> 50"
  by (simp_all add: word_sless_alt word_sle_eq)

lemma GetTeams_snd:
  "snd (GetTeams tr decode c orgID siteId sz cursor trace) =
     trace @ [new_request c ''GET'' (GetTeams_path orgID siteId sz cursor) None []]"
  by (simp add: GetTeams_def makeRequest_eq split: sum.splits)

lemma FetchTeamMembers_snd:
  "snd (FetchTeamMembers tr decode c orgID teamID siteId after first trace) =
     trace @ [new_request c ''POST''
                (''/public/teams/v1/org/'' @ orgID @ ''/teams/'' @ teamID @ ''/members''
                   @ (if siteId \<noteq> [] then ''?siteId='' @ siteId else []))
                (Some (marshal_PublicApiMembershipFetchPayload (FetchTeamMembers_payload after first)))
                [(''Accept'', ''*/*'')]]"
  by (simp add: FetchTeamMembers_def makeRequestWithHeaders_eq Let_def split: sum.splits)


lemma Update_trace:
  "snd (Update tr decode client req resp0 trace) =
     (if HasError (Diagnostics resp0 @ fst (req_Plan req)) then trace
      else trace @ [UpdateTeam_request client (ValueString (m_ID (snd (req_Plan req))))
                      \<lparr>u_DisplayName = ValueString (m_DisplayName (snd (req_Plan req))),
                       u_Description = ValueString (m_Description (snd (req_Plan req)))\<rparr>])"
  by (simp add: Update_snd UpdateTeam_snd)

lemma Create_trace:
  "snd (Create tr decode client req resp0 trace) =
     (if HasError (Diagnostics resp0 @ fst (req_Plan req)) then trace
      else trace @ [CreateTeam_request client
                      \<lparr>c_DisplayName = ValueString (m_DisplayName (snd (req_Plan req))),
                       c_Description = ValueString (m_Description (snd (req_Plan req))),
                       c_TeamType = ValueString (m_TeamType (snd (req_Plan req))),
                       c_SiteId = ValueString (m_SiteId (snd (req_Plan req)))\<rparr>])"
  by (simp add: Create_snd CreateTeam_snd)

text \<open>
  The diagnostics a reconciler operation adds: those of reading the plan (or the prior
  state), then error diagnostics only. No operation of the current reconciler adds a warning.
\<close>

lemma State_Set_Diagnostics:
  "Diagnostics (State_Set check data resp) = Diagnostics resp @ check data"
  by (simp add: State_Set_def Append_def Let_def)

lemma set_diagnostics_errors: "list_all is_error (set_diagnostics s)"
  by (simp add: set_diagnostics_def split: tf_set.splits)

lemma Create_adds_errors_only:
  "\<exists>ds. Diagnostics (fst (Create tr decode client req resp0 trace))
          = Diagnostics resp0 @ fst (req_Plan req) @ ds \<and> list_all is_error ds"
proof (cases "HasError (Diagnostics resp0 @ fst (req_Plan req))")
  case True
  then have "Diagnostics (fst (Create tr decode client req resp0 trace))
          = Diagnostics resp0 @ fst (req_Plan req) @ []"
    by (simp add: Create_def split_beta Let_def Append_def)
  then show ?thesis by (intro exI conjI) (assumption, simp)
next
  case False
  let ?createReq = "\<lparr>c_DisplayName = ValueString (m_DisplayName (snd (req_Plan req))),
                     c_Description = ValueString (m_Description (snd (req_Plan req))),
                     c_TeamType = ValueString (m_TeamType (snd (req_Plan req))),
                     c_SiteId = ValueString (m_SiteId (snd (req_Plan req)))\<rparr>"
  obtain x t where c: "CreateTeam tr decode client ?createReq trace = (x, t)"
    by (cases "CreateTeam tr decode client ?createReq trace")
  show ?thesis
  proof (cases x)
    case (Inl err)
    with False c have "Diagnostics (fst (Create tr decode client req resp0 trace))
          = Diagnostics resp0 @ fst (req_Plan req)
            @ [ErrorDiagnostic ''Client Error'' (''Unable to create team, got error: '' @ err)]"
      by (simp add: Create_def split_beta Let_def Append_def AddError_def)
    then show ?thesis by (intro exI conjI) (assumption, simp)
  next
    case (Inr team)
    with False c have "\<exists>data. Diagnostics (fst (Create tr decode client req resp0 trace))
          = Diagnostics resp0 @ fst (req_Plan req) @ Members_diags data"
      apply (simp add: Create_def split_beta Let_def Append_def State_Set_Diagnostics)
      apply (rule exI)
      apply (rule refl)
      done
    then obtain data where "Diagnostics (fst (Create tr decode client req resp0 trace))
          = Diagnostics resp0 @ fst (req_Plan req) @ Members_diags data"
      by (elim exE)
    then show ?thesis by (intro exI conjI) (assumption, simp add: Members_diags_def set_diagnostics_errors)
  qed
qed

lemma Update_adds_errors_only:
  "\<exists>ds. Diagnostics (fst (Update tr decode client req resp0 trace))
          = Diagnostics resp0 @ fst (req_Plan req) @ ds \<and> list_all is_error ds"
proof (cases "HasError (Diagnostics resp0 @ fst (req_Plan req))")
  case True
  then have "Diagnostics (fst (Update tr decode client req resp0 trace))
          = Diagnostics resp0 @ fst (req_Plan req) @ []"
    by (simp add: Update_def split_beta Let_def Append_def)
  then show ?thesis by (intro exI conjI) (assumption, simp)
next
  case False
  let ?updateReq = "\<lparr>u_DisplayName = ValueString (m_DisplayName (snd (req_Plan req))),
                     u_Description = ValueString (m_Description (snd (req_Plan req)))\<rparr>"
  obtain x t where c: "UpdateTeam tr decode client (ValueString (m_ID (snd (req_Plan req)))) ?updateReq trace = (x, t)"
    by (cases "UpdateTeam tr decode client (ValueString (m_ID (snd (req_Plan req)))) ?updateReq trace")
  show ?thesis
  proof (cases x)
    case (Inl err)
    with False c have "Diagnostics (fst (Update tr decode client req resp0 trace))
          = Diagnostics resp0 @ fst (req_Plan req)
            @ [ErrorDiagnostic ''Client Error'' (''Unable to update team, got error: '' @ err)]"
      by (simp add: Update_def split_beta Let_def Append_def AddError_def)
    then show ?thesis by (intro exI conjI) (assumption, simp)
  next
    case (Inr team)
    with False c have "\<exists>data. Diagnostics (fst (Update tr decode client req resp0 trace))
          = Diagnostics resp0 @ fst (req_Plan req) @ Members_diags data"
      apply (simp add: Update_def split_beta Let_def Append_def State_Set_Diagnostics)
      apply (rule exI)
      apply (rule refl)
      done
    then obtain data where "Diagnostics (fst (Update tr decode client req resp0 trace))
          = Diagnostics resp0 @ fst (req_Plan req) @ Members_diags data"
      by (elim exE)
    then show ?thesis by (intro exI conjI) (assumption, simp add: Members_diags_def set_diagnostics_errors)
  qed
qed

lemma Read_adds_errors_only:
  "\<exists>ds. Diagnostics (fst (Read tr decode client req resp0 trace))
          = Diagnostics resp0 @ fst (req_State req) @ ds \<and> list_all is_error ds"
proof (cases "HasError (Diagnostics resp0 @ fst (req_State req))")
  case True
  then have "Diagnostics (fst (Read tr decode client req resp0 trace))
          = Diagnostics resp0 @ fst (req_State req) @ []"
    by (simp add: Read_def split_beta Let_def Append_def)
  then show ?thesis by (intro exI conjI) (assumption, simp)
next
  case False
  obtain x t where c: "GetTeam tr decode client (ValueString (m_ID (snd (req_State req)))) trace = (x, t)"
    by (cases "GetTeam tr decode client (ValueString (m_ID (snd (req_State req)))) trace")
  show ?thesis
  proof (cases x)
    case (Inl err)
    show ?thesis
    proof (cases "err = ''team not found: '' @ ValueString (m_ID (snd (req_State req)))")
      case True
      with False c Inl have "Diagnostics (fst (Read tr decode client req resp0 trace))
          = Diagnostics resp0 @ fst (req_State req) @ []"
        by (simp add: Read_def split_beta Let_def Append_def RemoveResource_def)
      then show ?thesis by (intro exI conjI) (assumption, simp)
    next
      case ne: False
      with False c Inl have "Diagnostics (fst (Read tr decode client req resp0 trace))
          = Diagnostics resp0 @ fst (req_State req)
            @ [ErrorDiagnostic ''Client Error'' (''Unable to read team, got error: '' @ err)]"
        by (simp add: Read_def split_beta Let_def Append_def AddError_def)
      then show ?thesis by (intro exI conjI) (assumption, simp)
    qed
  next
    case (Inr team)
    with False c have "\<exists>data. Diagnostics (fst (Read tr decode client req resp0 trace))
          = Diagnostics resp0 @ fst (req_State req) @ Members_diags data"
      apply (simp add: Read_def split_beta Let_def Append_def State_Set_Diagnostics)
      apply (rule exI)
      apply (rule refl)
      done
    then obtain data where "Diagnostics (fst (Read tr decode client req resp0 trace))
          = Diagnostics resp0 @ fst (req_State req) @ Members_diags data"
      by (elim exE)
    then show ?thesis by (intro exI conjI) (assumption, simp add: Members_diags_def set_diagnostics_errors)
  qed
qed

lemma Delete_adds_errors_only:
  "\<exists>ds. Diagnostics (fst (Delete tr client req resp0 trace))
          = Diagnostics resp0 @ fst (req_State req) @ ds \<and> list_all is_error ds"
proof (cases "HasError (Diagnostics resp0 @ fst (req_State req))")
  case True
  then have "Diagnostics (fst (Delete tr client req resp0 trace))
          = Diagnostics resp0 @ fst (req_State req) @ []"
    by (simp add: Delete_def split_beta Let_def Append_def)
  then show ?thesis by (intro exI conjI) (assumption, simp)
next
  case False
  obtain x t where c: "DeleteTeam tr client (ValueString (m_ID (snd (req_State req)))) trace = (x, t)"
    by (cases "DeleteTeam tr client (ValueString (m_ID (snd (req_State req)))) trace")
  show ?thesis
  proof (cases x)
    case None
    with False c have "Diagnostics (fst (Delete tr client req resp0 trace))
          = Diagnostics resp0 @ fst (req_State req) @ []"
      by (simp add: Delete_def split_beta Let_def Append_def)
    then show ?thesis by (intro exI conjI) (assumption, simp)
  next
    case (Some err)
    with False c have "Diagnostics (fst (Delete tr client req resp0 trace))
          = Diagnostics resp0 @ fst (req_State req)
            @ [ErrorDiagnostic ''Client Error'' (''Unable to delete team, got error: '' @ err)]"
      by (simp add: Delete_def split_beta Let_def Append_def AddError_def)
    then show ?thesis by (intro exI conjI) (assumption, simp)
  qed
qed

lemma Read_trace:
  "snd (Read tr decode client req resp0 trace) =
     (if HasError (Diagnostics resp0 @ fst (req_State req)) then trace
      else trace @ [GetTeam_request client (ValueString (m_ID (snd (req_State req))))])"
  by (simp add: Read_def split_beta Let_def Append_def GetTeam_eq split: sum.splits http_outcome.splits)

lemma Delete_trace:
  "snd (Delete tr client req resp0 trace) =
     (if HasError (Diagnostics resp0 @ fst (req_State req)) then trace
      else trace @ [DeleteTeam_request client (ValueString (m_ID (snd (req_State req))))])"
  by (simp add: Delete_def split_beta Let_def Append_def DeleteTeam_eq split: option.splits http_outcome.splits)

text \<open>
  A model whose check reports an error is not stored: the diagnostics are appended and the
  state stays as it was. So a create response that echoes the same member twice leaves
  \<^verbatim>\<open>Create\<close> with one error diagnostic and no state.
\<close>

lemma State_Set_refuses_repeated_element:
  "HasError (check data) \<Longrightarrow>
     State_Set check data resp = resp\<lparr>Diagnostics := Diagnostics resp @ check data\<rparr>"
  by (simp add: State_Set_def Append_def Let_def)

lemma Create_refuses_repeated_echoed_member:
  "fst (Create (answers (status 201 ''201 Created''))
          (decodes_to (example_team\<lparr>Members := Some [\<lparr>AccountID = ''X''\<rparr>, \<lparr>AccountID = ''X''\<rparr>]\<rparr>))
          example_client (request_with (example_model []) (example_model [])) untracked [])
     = \<lparr>Diagnostics = [ErrorDiagnostic ''Duplicate Set Element''
                          ''This attribute contains duplicate values''],
        resp_State = None\<rparr>"
  by (simp add: Create_def CreateTeam_def makeRequest_eq answers_def status_def status_defs
      decodes_to_def request_with_def untracked_def Append_def State_Set_def Let_def
      example_team_def example_model_def Members_diags_def set_diagnostics_def
      member_models_def HasError_def)

subsection \<open>The member loops of the legacy reconciler\<close>





lemma AddWarning_simps [simp]:
  "resp_State (AddWarning s d resp) = resp_State resp"
  "HasError (Diagnostics (AddWarning s d resp)) = HasError (Diagnostics resp)"
  by (simp_all add: AddWarning_def Append_def)


lemma Create_add_members_resp:
  "resp_State (fst (Create_add_members tr client teamID members resp trace)) = resp_State resp
   \<and> HasError (Diagnostics (fst (Create_add_members tr client teamID members resp trace)))
       = HasError (Diagnostics resp)"
proof (induction members arbitrary: resp trace)
  case Nil
  then show ?case by simp
next
  case (Cons member members)
  obtain e t where a: "AddTeamMember tr client teamID (to_TeamMember member) trace = (e, t)"
    by (cases "AddTeamMember tr client teamID (to_TeamMember member) trace")
  from a Cons.IH show ?case
    by (cases e) (simp_all add: Let_def)
qed


lemma Update_remove_members_resp:
  "resp_State (fst (Update_remove_members tr client teamID new keys resp trace)) = resp_State resp
   \<and> HasError (Diagnostics (fst (Update_remove_members tr client teamID new keys resp trace)))
       = HasError (Diagnostics resp)"
proof (induction keys arbitrary: resp trace)
  case Nil
  then show ?case by simp
next
  case (Cons accountID keys)
  obtain e t where a: "RemoveTeamMember tr client teamID accountID trace = (e, t)"
    by (cases "RemoveTeamMember tr client teamID accountID trace")
  from a Cons.IH show ?case
    by (cases e) simp_all
qed


lemma Update_add_members_resp:
  "resp_State (fst (Update_add_members tr client teamID current entries resp trace)) = resp_State resp
   \<and> HasError (Diagnostics (fst (Update_add_members tr client teamID current entries resp trace)))
       = HasError (Diagnostics resp)"
proof (induction entries arbitrary: resp trace)
  case Nil
  then show ?case by simp
next
  case (Cons entry entries)
  obtain accountID member where en: "entry = (accountID, member)" by (cases entry)
  obtain e t where a: "AddTeamMember tr client teamID (to_TeamMember member) trace = (e, t)"
    by (cases "AddTeamMember tr client teamID (to_TeamMember member) trace")
  from a Cons.IH en show ?case
    by (cases e) simp_all
qed

text \<open>The diagnostics of the loops: what was there, then one warning per failed call.\<close>

lemma AddWarning_Diagnostics [simp]:
  "Diagnostics (AddWarning s d resp) = Diagnostics resp @ [WarningDiagnostic s d]"
  by (simp add: AddWarning_def Append_def)

















lemma legacy_UpdateTeam_snd:
  "snd (legacy_UpdateTeam tr decode c teamID updateReq trace) =
     trace @ [legacy_new_request c ''PUT'' (''/admin/v1/orgs/'' @ l_Organization c @ ''/teams/'' @ teamID)
                (Some (marshal_legacy_UpdateTeamRequest updateReq))]"
  by (simp add: legacy_UpdateTeam_def legacy_makeRequest_eq split: sum.splits)




lemma legacy_CreateTeam_snd:
  "snd (legacy_CreateTeam tr decode c team trace) =
     trace @ [legacy_new_request c ''POST'' (''/admin/v1/orgs/'' @ l_Organization c @ ''/teams'')
                (Some (marshal_legacy_CreateTeamRequest team))]"
  by (simp add: legacy_CreateTeam_def legacy_makeRequest_eq split: sum.splits)


subsection \<open>Update: the membership diff\<close>




subsection \<open>Read: a team deleted remotely\<close>

text \<open>
  Claim C2. When the prior state was read without error and the API answers the Get
  request with 404, \<^verbatim>\<open>Read\<close> removes the resource from state and adds no diagnostic.
  When \<^verbatim>\<open>GetTeam\<close> fails in any other way (the request is refused, the transport fails,
  another status, a body that does not decode), \<^verbatim>\<open>Read\<close> adds one error diagnostic
  carrying the error and leaves the state as it was.
\<close>

theorem Read_not_found_removes_resource:
  assumes ok: "\<not> HasError (Diagnostics resp0 @ fst (req_State req))"
      and id: "teamID = ValueString (m_ID (snd (req_State req)))"
  shows "((\<exists>r. tr trace (GetTeam_request c teamID) = Answered r \<and> StatusCode r = 404) \<longrightarrow>
            fst (Read tr decode c req resp0 trace) =
              \<lparr>Diagnostics = Diagnostics resp0 @ fst (req_State req), resp_State = None\<rparr>)
       \<and> (\<not> (\<exists>r. tr trace (GetTeam_request c teamID) = Answered r \<and> StatusCode r = 404) \<longrightarrow>
            (\<forall>err. fst (GetTeam tr decode c teamID trace) = Inl err \<longrightarrow>
               fst (Read tr decode c req resp0 trace) =
                 \<lparr>Diagnostics = Diagnostics resp0 @ fst (req_State req)
                      @ [ErrorDiagnostic ''Client Error'' (''Unable to read team, got error: '' @ err)],
                   resp_State = resp_State resp0\<rparr>))"
proof -
  let ?out = "tr trace (GetTeam_request c teamID)"
  have A: "fst (Read tr decode c req resp0 trace) =
              \<lparr>Diagnostics = Diagnostics resp0 @ fst (req_State req), resp_State = None\<rparr>"
    if "?out = Answered r" "StatusCode r = 404" for r
    using that ok id
    by (simp add: Read_def split_beta GetTeam_eq Append_def RemoveResource_def Let_def)
  have B: "fst (Read tr decode c req resp0 trace) =
                 \<lparr>Diagnostics = Diagnostics resp0 @ fst (req_State req)
                      @ [ErrorDiagnostic ''Client Error'' (''Unable to read team, got error: '' @ err)],
                   resp_State = resp_State resp0\<rparr>"
    if n: "\<not> (\<exists>r. ?out = Answered r \<and> StatusCode r = 404)"
     and e: "fst (GetTeam tr decode c teamID trace) = Inl err" for err
  proof -
    have ne: "err \<noteq> ''team not found: '' @ teamID"
      using n e
      by (auto simp: GetTeam_eq api_error_def split: http_outcome.splits sum.splits if_splits)
    obtain t where g: "GetTeam tr decode c teamID trace = (Inl err, t)"
      using e by (cases "GetTeam tr decode c teamID trace") simp
    show ?thesis
      using ne g ok id by (simp add: Read_def split_beta Append_def AddError_def Let_def)
  qed
  show ?thesis using A B by blast
qed

theorem Read_not_found_removes_resource_witness:
  "fst (Read (answers (status 404 ''404 Not Found'')) (decodes_to example_team) example_client
          (request_with (example_model []) (example_model [])) (tracked (example_model [])) [])
     = \<lparr>Diagnostics = [], resp_State = None\<rparr>
   \<and> fst (Read (answers (status 500 ''500 Internal Server Error'')) (decodes_to example_team)
          example_client (request_with (example_model []) (example_model []))
          (tracked (example_model [])) [])
     = \<lparr>Diagnostics = [ErrorDiagnostic ''Client Error''
           ''Unable to read team, got error: API error getting team: 500 Internal Server Error - ''],
        resp_State = Some (example_model [])\<rparr>"
proof -
  let ?req = "request_with (example_model []) (example_model [])"
  let ?resp = "tracked (example_model [])"
  let ?gone = "answers (status 404 ''404 Not Found'')"
  let ?down = "answers (status 500 ''500 Internal Server Error'')"
  have ok: "\<not> HasError (Diagnostics ?resp @ fst (req_State ?req))"
    by (simp add: tracked_def request_with_def)
  have id: "''T1'' = ValueString (m_ID (snd (req_State ?req)))"
    by (simp add: request_with_def example_model_def)
  have gone: "\<exists>r. ?gone [] (GetTeam_request example_client ''T1'') = Answered r \<and> StatusCode r = 404"
    by (simp add: answers_def status_def)
  have down: "\<not> (\<exists>r. ?down [] (GetTeam_request example_client ''T1'') = Answered r \<and> StatusCode r = 404)"
    by (simp add: answers_def status_def)
  have err: "fst (GetTeam ?down (decodes_to example_team) example_client ''T1'' [])
               = Inl ''API error getting team: 500 Internal Server Error - ''"
    by (simp add: GetTeam_eq answers_def status_def api_error_def)
  note removed = Read_not_found_removes_resource
      [OF ok id, of ?gone "[]" example_client "decodes_to example_team",
       THEN conjunct1, THEN mp, OF gone]
  note failed = Read_not_found_removes_resource
      [OF ok id, of ?down "[]" example_client "decodes_to example_team",
       THEN conjunct2, THEN mp, OF down, THEN spec, THEN mp, OF err]
  show ?thesis
    using removed failed by (simp add: tracked_def request_with_def)
qed

subsection \<open>Delete: which answers count as success\<close>

text \<open>
  Claim C3, as the code has it. \<^verbatim>\<open>DeleteTeam\<close> returns nil, and \<^verbatim>\<open>Delete\<close> adds no
  error, exactly when the API answers 200, 204 or 404. Every other status is an error,
  410 Gone among them.
\<close>

theorem Delete_succeeds_on_200_204_404_only:
  assumes ok: "\<not> HasError (Diagnostics resp0 @ fst (req_State req))"
      and ans: "tr trace (DeleteTeam_request client (ValueString (m_ID (snd (req_State req))))) = Answered r"
  shows "(fst (DeleteTeam tr client (ValueString (m_ID (snd (req_State req)))) trace) = None
            \<longleftrightarrow> StatusCode r \<in> {200, 204, 404})
       \<and> (HasError (Diagnostics (fst (Delete tr client req resp0 trace)))
            \<longleftrightarrow> StatusCode r \<notin> {200, 204, 404})"
proof -
  have 1: "fst (DeleteTeam tr client (ValueString (m_ID (snd (req_State req)))) trace) = None
            \<longleftrightarrow> StatusCode r \<in> {200, 204, 404}"
    by (simp add: DeleteTeam_eq ans)
  have 2: "HasError (Diagnostics (fst (Delete tr client req resp0 trace)))
            \<longleftrightarrow> StatusCode r \<notin> {200, 204, 404}"
    using ok by (simp add: Delete_eq[OF ok] DeleteTeam_eq ans AddError_def Append_def)
  show ?thesis using 1 2 by blast
qed

theorem Delete_succeeds_on_200_204_404_only_witness:
  "fst (DeleteTeam (answers (status 404 ''404 Not Found'')) example_client ''T1'' []) = None
   \<and> \<not> HasError (Diagnostics (fst (Delete (answers (status 404 ''404 Not Found'')) example_client
      (request_with (example_model []) (example_model [])) (tracked (example_model [])) [])))"
  using Delete_succeeds_on_200_204_404_only
    [of "tracked (example_model [])" "request_with (example_model []) (example_model [])"
        "answers (status 404 ''404 Not Found'')" "[]" example_client "status 404 ''404 Not Found''"]
  by (simp add: example_client_def answers_def status_def example_model_def tracked_def
      request_with_def)

text \<open>
  Claim C3 as stated fails: on 410 Gone \<^verbatim>\<open>DeleteTeam\<close> returns an API error and
  \<^verbatim>\<open>Delete\<close> reports it.
\<close>

theorem Delete_410_is_an_error:
  "HasError (Diagnostics (fst (Delete (answers (status 410 ''410 Gone'')) example_client
      (request_with (example_model []) (example_model [])) (tracked (example_model [])) [])))
   \<and> fst (DeleteTeam (answers (status 410 ''410 Gone'')) example_client ''T1'' [])
       = Some ''API error deleting team: 410 Gone - ''"
  by (simp add: Delete_eq DeleteTeam_eq example_client_def answers_def status_def example_model_def
      tracked_def request_with_def AddError_def Append_def api_error_def)

subsection \<open>Batch sizes\<close>

text \<open>
  The bulk operations check the number of team identifiers before they build a request:
  an empty list, or one of more than 100, is rejected and the trace stays as it was.
\<close>

lemma bulk_operations_reject_locally:
  assumes "length teamIDs = 0 \<or> 100 < length teamIDs"
  shows "ArchiveTeams tr decode c orgID teamIDs trace =
           (Inl (''teamIDs must contain between 1 and 100 items, got '' @ decimal (length teamIDs)), trace)
       \<and> UnarchiveTeams tr decode c orgID teamIDs trace =
           (Inl (''teamIDs must contain between 1 and 100 items, got '' @ decimal (length teamIDs)), trace)"
  using assms by (auto simp: ArchiveTeams_eq UnarchiveTeams_eq)

text \<open>
  The member operations have no such check: whatever the list, the request is built and
  handed to the transport.
\<close>

lemma member_operations_always_send:
  "snd (AddTeamMembers tr decode c orgID teamID members trace)
     = trace @ [AddTeamMembers_request c orgID teamID members]"
  "snd (RemoveTeamMembers tr decode' c orgID teamID members trace)
     = trace @ [RemoveTeamMembers_request c orgID teamID members]"
  by (simp_all add: AddTeamMembers_eq RemoveTeamMembers_eq)

text \<open>
  Claim C4 at its failing inputs. \<^verbatim>\<open>AddTeamMembers\<close> and \<^verbatim>\<open>RemoveTeamMembers\<close> send an
  empty member list, and a list of 51 members, to the API (which here answers 400); the
  error is the API's, not a local one. \<^verbatim>\<open>ArchiveTeams\<close> on an empty list fails locally
  with an empty trace, as the claim says.
\<close>

theorem member_batch_size_is_not_checked:
  "snd (AddTeamMembers (answers (status 400 ''400 Bad Request'')) (decodes_to example_add_response)
          example_client ''org-1'' ''T1'' [] [])
     = [AddTeamMembers_request example_client ''org-1'' ''T1'' []]
   \<and> fst (AddTeamMembers (answers (status 400 ''400 Bad Request'')) (decodes_to example_add_response)
          example_client ''org-1'' ''T1'' [] [])
     = Inl ''API error adding team members: 400 Bad Request - ''
   \<and> length (replicate 51 \<lparr>AccountID = ''A''\<rparr>) = 51
   \<and> snd (AddTeamMembers (answers (status 400 ''400 Bad Request'')) (decodes_to example_add_response)
          example_client ''org-1'' ''T1'' (replicate 51 \<lparr>AccountID = ''A''\<rparr>) [])
     = [AddTeamMembers_request example_client ''org-1'' ''T1'' (replicate 51 \<lparr>AccountID = ''A''\<rparr>)]
   \<and> snd (RemoveTeamMembers (answers (status 400 ''400 Bad Request'')) (decodes_to \<lparr>r_Errors = []\<rparr>)
          example_client ''org-1'' ''T1'' [] [])
     = [RemoveTeamMembers_request example_client ''org-1'' ''T1'' []]
   \<and> ArchiveTeams (answers (status 400 ''400 Bad Request'')) (decodes_to example_bulk_response)
          example_client ''org-1'' [] []
     = (Inl ''teamIDs must contain between 1 and 100 items, got 0'', [])"
  by (simp add: AddTeamMembers_eq RemoveTeamMembers_eq ArchiveTeams_eq answers_def status_def
      api_error_def decimal.simps)

subsection \<open>Partial success\<close>

text \<open>
  Claim C5. When the API answers a bulk archive, a bulk unarchive, an add-members or a
  remove-members request with 200 and a body that decodes, the call returns the decoded
  response and no error, whatever the response's lists hold: a non-empty list of per-item
  coded errors beside a non-empty list of successes never fails the call. The per-item
  errors stay entries of the returned response's error list; they are not surfaced as
  warnings. The current reconciler calls none of the four operations: \<^verbatim>\<open>Create\<close>,
  \<^verbatim>\<open>Read\<close>, \<^verbatim>\<open>Update\<close> and \<^verbatim>\<open>Delete\<close> each send at most their own
  single team request, and to the diagnostics of the response they were given they add
  those of reading the plan or the prior state and, after them, error diagnostics only.
\<close>

theorem partial_success_is_overall_success:
  assumes "StatusCode r = 200" and "decode (Body r) = Inr result" and "decode' (Body r) = Inr added"
      and "decode'' (Body r) = Inr removed"
  shows "(1 \<le> length teamIDs \<and> length teamIDs \<le> 100
            \<and> tr trace (ArchiveTeams_request c orgID teamIDs) = Answered r
          \<longrightarrow> fst (ArchiveTeams tr decode c orgID teamIDs trace) = Inr result)
       \<and> (1 \<le> length teamIDs \<and> length teamIDs \<le> 100
            \<and> tr trace (UnarchiveTeams_request c orgID teamIDs) = Answered r
          \<longrightarrow> fst (UnarchiveTeams tr decode c orgID teamIDs trace) = Inr result)
       \<and> (tr trace (AddTeamMembers_request c orgID teamID members) = Answered r
          \<longrightarrow> fst (AddTeamMembers tr decode' c orgID teamID members trace) = Inr added)
       \<and> (tr trace (RemoveTeamMembers_request c orgID teamID members) = Answered r
          \<longrightarrow> fst (RemoveTeamMembers tr decode'' c orgID teamID members trace) = Inr removed)
       \<and> (\<exists>ds. Diagnostics (fst (Create tp decode_team client req resp0 trace0))
                  = Diagnostics resp0 @ fst (req_Plan req) @ ds \<and> list_all is_error ds)
       \<and> (\<exists>ds. Diagnostics (fst (Read tp decode_team client req resp0 trace0))
                  = Diagnostics resp0 @ fst (req_State req) @ ds \<and> list_all is_error ds)
       \<and> (\<exists>ds. Diagnostics (fst (Update tp decode_team client req resp0 trace0))
                  = Diagnostics resp0 @ fst (req_Plan req) @ ds \<and> list_all is_error ds)
       \<and> (\<exists>ds. Diagnostics (fst (Delete tp client req resp0 trace0))
                  = Diagnostics resp0 @ fst (req_State req) @ ds \<and> list_all is_error ds)
       \<and> snd (Create tp decode_team client req resp0 trace0) =
           (if HasError (Diagnostics resp0 @ fst (req_Plan req)) then trace0
            else trace0 @ [CreateTeam_request client
                      \<lparr>c_DisplayName = ValueString (m_DisplayName (snd (req_Plan req))),
                       c_Description = ValueString (m_Description (snd (req_Plan req))),
                       c_TeamType = ValueString (m_TeamType (snd (req_Plan req))),
                       c_SiteId = ValueString (m_SiteId (snd (req_Plan req)))\<rparr>])
       \<and> snd (Read tp decode_team client req resp0 trace0) =
           (if HasError (Diagnostics resp0 @ fst (req_State req)) then trace0
            else trace0 @ [GetTeam_request client (ValueString (m_ID (snd (req_State req))))])
       \<and> snd (Update tp decode_team client req resp0 trace0) =
           (if HasError (Diagnostics resp0 @ fst (req_Plan req)) then trace0
            else trace0 @ [UpdateTeam_request client (ValueString (m_ID (snd (req_Plan req))))
                      \<lparr>u_DisplayName = ValueString (m_DisplayName (snd (req_Plan req))),
                       u_Description = ValueString (m_Description (snd (req_Plan req)))\<rparr>])
       \<and> snd (Delete tp client req resp0 trace0) =
           (if HasError (Diagnostics resp0 @ fst (req_State req)) then trace0
            else trace0 @ [DeleteTeam_request client (ValueString (m_ID (snd (req_State req))))])"
proof (intro conjI)
  show "1 \<le> length teamIDs \<and> length teamIDs \<le> 100
            \<and> tr trace (ArchiveTeams_request c orgID teamIDs) = Answered r
          \<longrightarrow> fst (ArchiveTeams tr decode c orgID teamIDs trace) = Inr result"
    using assms by (simp add: ArchiveTeams_eq)
  show "1 \<le> length teamIDs \<and> length teamIDs \<le> 100
            \<and> tr trace (UnarchiveTeams_request c orgID teamIDs) = Answered r
          \<longrightarrow> fst (UnarchiveTeams tr decode c orgID teamIDs trace) = Inr result"
    using assms by (simp add: UnarchiveTeams_eq)
  show "tr trace (AddTeamMembers_request c orgID teamID members) = Answered r
          \<longrightarrow> fst (AddTeamMembers tr decode' c orgID teamID members trace) = Inr added"
    using assms by (simp add: AddTeamMembers_eq)
  show "tr trace (RemoveTeamMembers_request c orgID teamID members) = Answered r
          \<longrightarrow> fst (RemoveTeamMembers tr decode'' c orgID teamID members trace) = Inr removed"
    using assms by (simp add: RemoveTeamMembers_eq)
  show "\<exists>ds. Diagnostics (fst (Create tp decode_team client req resp0 trace0))
                  = Diagnostics resp0 @ fst (req_Plan req) @ ds \<and> list_all is_error ds"
    by (rule Create_adds_errors_only)
  show "\<exists>ds. Diagnostics (fst (Read tp decode_team client req resp0 trace0))
                  = Diagnostics resp0 @ fst (req_State req) @ ds \<and> list_all is_error ds"
    by (rule Read_adds_errors_only)
  show "\<exists>ds. Diagnostics (fst (Update tp decode_team client req resp0 trace0))
                  = Diagnostics resp0 @ fst (req_Plan req) @ ds \<and> list_all is_error ds"
    by (rule Update_adds_errors_only)
  show "\<exists>ds. Diagnostics (fst (Delete tp client req resp0 trace0))
                  = Diagnostics resp0 @ fst (req_State req) @ ds \<and> list_all is_error ds"
    by (rule Delete_adds_errors_only)
  show "snd (Create tp decode_team client req resp0 trace0) =
           (if HasError (Diagnostics resp0 @ fst (req_Plan req)) then trace0
            else trace0 @ [CreateTeam_request client
                      \<lparr>c_DisplayName = ValueString (m_DisplayName (snd (req_Plan req))),
                       c_Description = ValueString (m_Description (snd (req_Plan req))),
                       c_TeamType = ValueString (m_TeamType (snd (req_Plan req))),
                       c_SiteId = ValueString (m_SiteId (snd (req_Plan req)))\<rparr>])"
    by (rule Create_trace)
  show "snd (Read tp decode_team client req resp0 trace0) =
           (if HasError (Diagnostics resp0 @ fst (req_State req)) then trace0
            else trace0 @ [GetTeam_request client (ValueString (m_ID (snd (req_State req))))])"
    by (rule Read_trace)
  show "snd (Update tp decode_team client req resp0 trace0) =
           (if HasError (Diagnostics resp0 @ fst (req_Plan req)) then trace0
            else trace0 @ [UpdateTeam_request client (ValueString (m_ID (snd (req_Plan req))))
                      \<lparr>u_DisplayName = ValueString (m_DisplayName (snd (req_Plan req))),
                       u_Description = ValueString (m_Description (snd (req_Plan req)))\<rparr>])"
    by (rule Update_trace)
  show "snd (Delete tp client req resp0 trace0) =
           (if HasError (Diagnostics resp0 @ fst (req_State req)) then trace0
            else trace0 @ [DeleteTeam_request client (ValueString (m_ID (snd (req_State req))))])"
    by (rule Delete_trace)
qed

theorem partial_success_is_overall_success_witness:
  "fst (ArchiveTeams (answers (status 200 ''200 OK'')) (decodes_to example_bulk_response)
          example_client ''org-1'' [''T1'', ''T2'', ''T3''] []) = Inr example_bulk_response
   \<and> length (SuccessfulTeamIds example_bulk_response) = 2
   \<and> length (b_Errors example_bulk_response) = 1
   \<and> fst (UnarchiveTeams (answers (status 200 ''200 OK'')) (decodes_to example_bulk_response)
          example_client ''org-1'' [''T1'', ''T2'', ''T3''] []) = Inr example_bulk_response
   \<and> fst (AddTeamMembers (answers (status 200 ''200 OK'')) (decodes_to example_add_response)
          example_client ''org-1'' ''T1'' [\<lparr>AccountID = ''A''\<rparr>, \<lparr>AccountID = ''B''\<rparr>, \<lparr>AccountID = ''C''\<rparr>] [])
       = Inr example_add_response
   \<and> fst (RemoveTeamMembers (answers (status 200 ''200 OK'')) (decodes_to example_remove_response)
          example_client ''org-1'' ''T1'' [\<lparr>AccountID = ''A''\<rparr>, \<lparr>AccountID = ''B''\<rparr>, \<lparr>AccountID = ''C''\<rparr>] [])
       = Inr example_remove_response"
proof -
  have s: "StatusCode (status 200 ''200 OK'') = 200" by (simp add: status_def)
  have d: "decodes_to example_bulk_response (Body (status 200 ''200 OK'')) = Inr example_bulk_response"
    by (simp add: decodes_to_def)
  have d': "decodes_to example_add_response (Body (status 200 ''200 OK'')) = Inr example_add_response"
    by (simp add: decodes_to_def)
  have d'': "decodes_to example_remove_response (Body (status 200 ''200 OK'')) = Inr example_remove_response"
    by (simp add: decodes_to_def)
  note T = partial_success_is_overall_success
      [where r = "status 200 ''200 OK''" and decode = "decodes_to example_bulk_response"
         and decode' = "decodes_to example_add_response" and result = example_bulk_response
         and added = example_add_response and decode'' = "decodes_to example_remove_response"
         and removed = example_remove_response and teamIDs = "[''T1'', ''T2'', ''T3'']"
         and tr = "answers (status 200 ''200 OK'')" and trace = "[]" and c = example_client
         and orgID = "''org-1''" and teamID = "''T1''"
         and members = "[\<lparr>AccountID = ''A''\<rparr>, \<lparr>AccountID = ''B''\<rparr>, \<lparr>AccountID = ''C''\<rparr>]",
       OF s d d' d'']
  have a: "fst (ArchiveTeams (answers (status 200 ''200 OK'')) (decodes_to example_bulk_response)
          example_client ''org-1'' [''T1'', ''T2'', ''T3''] []) = Inr example_bulk_response"
    using T[THEN conjunct1] by (simp add: answers_def)
  have u: "fst (UnarchiveTeams (answers (status 200 ''200 OK'')) (decodes_to example_bulk_response)
          example_client ''org-1'' [''T1'', ''T2'', ''T3''] []) = Inr example_bulk_response"
    using T[THEN conjunct2, THEN conjunct1] by (simp add: answers_def)
  have m: "fst (AddTeamMembers (answers (status 200 ''200 OK'')) (decodes_to example_add_response)
          example_client ''org-1'' ''T1'' [\<lparr>AccountID = ''A''\<rparr>, \<lparr>AccountID = ''B''\<rparr>, \<lparr>AccountID = ''C''\<rparr>] [])
       = Inr example_add_response"
    using T[THEN conjunct2, THEN conjunct2, THEN conjunct1] by (simp add: answers_def)
  have n: "fst (RemoveTeamMembers (answers (status 200 ''200 OK'')) (decodes_to example_remove_response)
          example_client ''org-1'' ''T1'' [\<lparr>AccountID = ''A''\<rparr>, \<lparr>AccountID = ''B''\<rparr>, \<lparr>AccountID = ''C''\<rparr>] [])
       = Inr example_remove_response"
    using T[THEN conjunct2, THEN conjunct2, THEN conjunct2, THEN conjunct1] by (simp add: answers_def)
  have l: "length (SuccessfulTeamIds example_bulk_response) = 2
           \<and> length (b_Errors example_bulk_response) = 1"
    by (simp add: example_bulk_response_def)
  show ?thesis
    by (intro conjI) (rule a, rule l[THEN conjunct1], rule l[THEN conjunct2], rule u, rule m, rule n)
qed

text \<open>
  Claim C5 as stated fails where it says that the per-item errors are surfaced as
  individual warnings. An add-members call answered with 200, two members added and one
  coded error, and a bulk archive answered with 200, two successes and one coded error,
  return the response and no error, and nothing else: the client has no diagnostics. The
  current reconciler, given a plan with the members A, B and C, sends the PATCH request
  (on create, the POST request) only and reports no diagnostic at all, so no warning.
\<close>

theorem partial_failure_gives_no_warning:
  "AddTeamMembers (answers (status 200 ''200 OK'')) (decodes_to example_add_response)
       example_client ''org-1'' ''T1'' [\<lparr>AccountID = ''A''\<rparr>, \<lparr>AccountID = ''B''\<rparr>, \<lparr>AccountID = ''C''\<rparr>] []
     = (Inr example_add_response,
        [AddTeamMembers_request example_client ''org-1'' ''T1''
           [\<lparr>AccountID = ''A''\<rparr>, \<lparr>AccountID = ''B''\<rparr>, \<lparr>AccountID = ''C''\<rparr>]])
   \<and> map e_AccountID (a_Errors example_add_response) = [''C'']
   \<and> a_Members example_add_response = [\<lparr>AccountID = ''A''\<rparr>, \<lparr>AccountID = ''B''\<rparr>]
   \<and> ArchiveTeams (answers (status 200 ''200 OK'')) (decodes_to example_bulk_response)
       example_client ''org-1'' [''T1'', ''T2'', ''T3''] []
     = (Inr example_bulk_response, [ArchiveTeams_request example_client ''org-1'' [''T1'', ''T2'', ''T3'']])
   \<and> map be_TeamID (b_Errors example_bulk_response) = [''T3'']
   \<and> SuccessfulTeamIds example_bulk_response = [''T1'', ''T2'']
   \<and> Diagnostics (fst (Update (answers (status 200 ''200 OK'')) (decodes_to example_team) example_client
         (request_with (example_model [member_A, member_B, member_C]) (example_model []))
         (tracked (example_model [])) [])) = []
   \<and> snd (Update (answers (status 200 ''200 OK'')) (decodes_to example_team) example_client
         (request_with (example_model [member_A, member_B, member_C]) (example_model []))
         (tracked (example_model [])) [])
     = [UpdateTeam_request example_client ''T1'' \<lparr>u_DisplayName = ''Dev Team'', u_Description = []\<rparr>]
   \<and> Diagnostics (fst (Create (answers (status 200 ''200 OK'')) (decodes_to example_team) example_client
         (request_with (example_model [member_A, member_B, member_C]) (example_model []))
         untracked [])) = []
   \<and> snd (Create (answers (status 200 ''200 OK'')) (decodes_to example_team) example_client
         (request_with (example_model [member_A, member_B, member_C]) (example_model []))
         untracked [])
     = [CreateTeam_request example_client
          \<lparr>c_DisplayName = ''Dev Team'', c_Description = [], c_TeamType = ''OPEN'', c_SiteId = []\<rparr>]"
proof -
  have a: "AddTeamMembers (answers (status 200 ''200 OK'')) (decodes_to example_add_response)
       example_client ''org-1'' ''T1'' [\<lparr>AccountID = ''A''\<rparr>, \<lparr>AccountID = ''B''\<rparr>, \<lparr>AccountID = ''C''\<rparr>] []
     = (Inr example_add_response,
        [AddTeamMembers_request example_client ''org-1'' ''T1''
           [\<lparr>AccountID = ''A''\<rparr>, \<lparr>AccountID = ''B''\<rparr>, \<lparr>AccountID = ''C''\<rparr>]])"
    by (simp add: AddTeamMembers_eq answers_def status_def decodes_to_def)
  have e: "map e_AccountID (a_Errors example_add_response) = [''C'']"
    by (simp add: example_add_response_def)
  have m: "a_Members example_add_response = [\<lparr>AccountID = ''A''\<rparr>, \<lparr>AccountID = ''B''\<rparr>]"
    by (simp add: example_add_response_def)
  have b: "ArchiveTeams (answers (status 200 ''200 OK'')) (decodes_to example_bulk_response)
       example_client ''org-1'' [''T1'', ''T2'', ''T3''] []
     = (Inr example_bulk_response, [ArchiveTeams_request example_client ''org-1'' [''T1'', ''T2'', ''T3'']])"
    by (simp add: ArchiveTeams_eq answers_def status_def decodes_to_def)
  have f: "map be_TeamID (b_Errors example_bulk_response) = [''T3'']"
    by (simp add: example_bulk_response_def)
  have g: "SuccessfulTeamIds example_bulk_response = [''T1'', ''T2'']"
    by (simp add: example_bulk_response_def)
  have ud: "Diagnostics (fst (Update (answers (status 200 ''200 OK'')) (decodes_to example_team) example_client
         (request_with (example_model [member_A, member_B, member_C]) (example_model []))
         (tracked (example_model [])) [])) = []"
    by (simp add: Update_def UpdateTeam_def makeRequest_eq answers_def status_def status_defs
        decodes_to_def request_with_def tracked_def Append_def State_Set_def Let_def
        example_team_def example_model_def Members_diags_def set_diagnostics_def
        member_A_def member_B_def member_C_def split: option.splits)
  have ut: "snd (Update (answers (status 200 ''200 OK'')) (decodes_to example_team) example_client
         (request_with (example_model [member_A, member_B, member_C]) (example_model []))
         (tracked (example_model [])) [])
     = [UpdateTeam_request example_client ''T1'' \<lparr>u_DisplayName = ''Dev Team'', u_Description = []\<rparr>]"
    by (simp add: Update_trace request_with_def tracked_def example_model_def)
  have cd: "Diagnostics (fst (Create (answers (status 200 ''200 OK'')) (decodes_to example_team) example_client
         (request_with (example_model [member_A, member_B, member_C]) (example_model []))
         untracked [])) = []"
    by (simp add: Create_def CreateTeam_def makeRequest_eq answers_def status_def status_defs
        decodes_to_def request_with_def untracked_def Append_def State_Set_def Let_def
        example_team_def example_model_def Members_diags_def set_diagnostics_def
        member_A_def member_B_def member_C_def split: option.splits)
  have ct: "snd (Create (answers (status 200 ''200 OK'')) (decodes_to example_team) example_client
         (request_with (example_model [member_A, member_B, member_C]) (example_model []))
         untracked [])
     = [CreateTeam_request example_client
          \<lparr>c_DisplayName = ''Dev Team'', c_Description = [], c_TeamType = ''OPEN'', c_SiteId = []\<rparr>]"
    by (simp add: Create_trace request_with_def untracked_def example_model_def)
  show ?thesis
    by (intro conjI) (rule a, rule e, rule m, rule b, rule f, rule g, rule ud, rule ut, rule cd, rule ct)
qed

subsection \<open>The update payload\<close>

lemma json_keys_UpdateTeamRequest:
  "set (json_keys (marshal_UpdateTeamRequest r)) \<subseteq> {''displayName'', ''description''}"
  by (auto simp: marshal_UpdateTeamRequest_def omitempty_def)

text \<open>
  Claim C6. \<^verbatim>\<open>Update\<close> hands the transport at most one request, a PATCH whose body is
  the marshalled \<^verbatim>\<open>UpdateTeamRequest\<close> built from the plan's display name and
  description. The keys of a marshalled \<^verbatim>\<open>UpdateTeamRequest\<close> are among
  \<^verbatim>\<open>displayName\<close> and \<^verbatim>\<open>description\<close>; \<^verbatim>\<open>teamType\<close> and \<^verbatim>\<open>organizationId\<close> never occur.
\<close>

theorem Update_payload_keys:
  "snd (Update tr decode client req resp0 trace) =
     (if HasError (Diagnostics resp0 @ fst (req_Plan req)) then trace
      else trace @ [\<lparr>Method = ''PATCH'',
                      URL = BaseURL client @ getTeamAPIPath client
                              (''/teams/'' @ ValueString (m_ID (snd (req_Plan req)))),
                      Header = request_headers client [],
                      ReqBody = Some (marshal_UpdateTeamRequest
                        \<lparr>u_DisplayName = ValueString (m_DisplayName (snd (req_Plan req))),
                         u_Description = ValueString (m_Description (snd (req_Plan req)))\<rparr>)\<rparr>])
   \<and> set (json_keys (marshal_UpdateTeamRequest updateReq)) \<subseteq> {''displayName'', ''description''}
   \<and> ''teamType'' \<notin> set (json_keys (marshal_UpdateTeamRequest updateReq))
   \<and> ''organizationId'' \<notin> set (json_keys (marshal_UpdateTeamRequest updateReq))"
proof -
  have k: "set (json_keys (marshal_UpdateTeamRequest updateReq)) \<subseteq> {''displayName'', ''description''}"
    by (rule json_keys_UpdateTeamRequest)
  have t: "''teamType'' \<notin> set (json_keys (marshal_UpdateTeamRequest updateReq))"
    using k by auto
  have o: "''organizationId'' \<notin> set (json_keys (marshal_UpdateTeamRequest updateReq))"
    using k by auto
  show ?thesis
    using k t o by (simp add: Update_snd UpdateTeam_snd UpdateTeam_request_def new_request_def)
qed

subsection \<open>Create: adding the planned members\<close>




subsection \<open>Lengths of display name and description\<close>

text \<open>
  Claim C8 at its failing inputs. A configuration with an empty display name and a
  description of 361 characters passes validation, and \<^verbatim>\<open>Create\<close> sends both to the
  API; \<^verbatim>\<open>Update\<close> sends a display name of 251 characters. Neither the schema nor the
  reconciler nor the client checks a length.
\<close>

theorem Create_sends_out_of_range_lengths:
  "length (replicate 361 (CHR ''d'')) = 361
   \<and> ValidateConfig (example_config [] (replicate 361 (CHR ''d'')) ''OPEN'') = []
   \<and> snd (validate_then_Create (answers (status 400 ''400 Bad Request'')) (decodes_to example_team)
        example_client (example_config [] (replicate 361 (CHR ''d'')) ''OPEN'') untracked [])
      = [CreateTeam_request example_client
           \<lparr>c_DisplayName = [], c_Description = replicate 361 (CHR ''d''),
            c_TeamType = ''OPEN'', c_SiteId = []\<rparr>]
   \<and> snd (Update (answers (status 400 ''400 Bad Request'')) (decodes_to example_team) example_client
        (request_with ((example_model []) \<lparr>m_DisplayName := StringValue (replicate 251 (CHR ''n''))\<rparr>)
           (example_model [])) (tracked (example_model [])) [])
      = [UpdateTeam_request example_client ''T1''
           \<lparr>u_DisplayName = replicate 251 (CHR ''n''), u_Description = []\<rparr>]"
proof -
  have v: "ValidateConfig (example_config [] (replicate 361 (CHR ''d'')) ''OPEN'') = []"
    by (simp add: ValidateConfig_def model_strings_def example_config_def validate_team_type
        validate_unvalidated)
  have c: "snd (validate_then_Create (answers (status 400 ''400 Bad Request'')) (decodes_to example_team)
        example_client (example_config [] (replicate 361 (CHR ''d'')) ''OPEN'') untracked [])
      = [CreateTeam_request example_client
           \<lparr>c_DisplayName = [], c_Description = replicate 361 (CHR ''d''),
            c_TeamType = ''OPEN'', c_SiteId = []\<rparr>]"
    by (simp add: validate_then_Create_def v Create_snd CreateTeam_snd untracked_def request_with_def,
        simp add: example_config_def)
  have u: "snd (Update (answers (status 400 ''400 Bad Request'')) (decodes_to example_team) example_client
        (request_with ((example_model []) \<lparr>m_DisplayName := StringValue (replicate 251 (CHR ''n''))\<rparr>)
           (example_model [])) (tracked (example_model [])) [])
      = [UpdateTeam_request example_client ''T1''
           \<lparr>u_DisplayName = replicate 251 (CHR ''n''), u_Description = []\<rparr>]"
    by (simp add: Update_snd UpdateTeam_snd request_with_def tracked_def example_model_def)
  show ?thesis using v c u by simp
qed

subsection \<open>Page sizes\<close>

text \<open>
  Claim C9, as the code has it. \<^verbatim>\<open>GetTeams\<close> sends one GET whose URL ends in the query
  built from the site, the size and the cursor: the query holds \<^verbatim>\<open>size=min(s, 300)\<close> when
  the requested size \<open>s\<close> is positive and no \<^verbatim>\<open>size\<close> otherwise (asked for 1000 teams
  and nothing else, the URL ends in \<^verbatim>\<open>/teams?size=300\<close>). \<^verbatim>\<open>FetchTeamMembers\<close> sends one
  POST whose payload holds \<^verbatim>\<open>first\<close> only when the requested page size is between 1 and
  50, and then unchanged: a page size that is not positive, or above 50, is left out of
  the payload (so that the default of the API applies), it is not replaced by 50. A page
  size that is sent never exceeds 50.
\<close>

theorem page_size_sent:
  "snd (GetTeams tr decode c orgID siteId sz cursor trace) =
     trace @ [\<lparr>Method = ''GET'',
               URL = BaseURL c @ ''/public/teams/v1/org/'' @ orgID @ ''/teams''
                     @ (let params =
                              (if siteId \<noteq> [] then [''siteId='' @ siteId] else [])
                              @ (if 0 < sint sz then [''size='' @ FormatInt (min (sint sz) 300)] else [])
                              @ (if cursor \<noteq> [] then [''cursor='' @ cursor] else [])
                        in if params = [] then [] else ''?'' @ Join params ''&''),
               Header = request_headers c [], ReqBody = None\<rparr>]
   \<and> map URL (drop (length trace) (snd (GetTeams tr decode c orgID [] sz [] trace))) =
       [BaseURL c @ ''/public/teams/v1/org/'' @ orgID @ ''/teams''
          @ (if 0 < sint sz then ''?size='' @ FormatInt (min (sint sz) 300) else [])]
   \<and> map URL (snd (GetTeams tr decode example_client ''org-1'' [] 1000 [] [])) =
       [''https://api.atlassian.com/public/teams/v1/org/org-1/teams?size=300'']
   \<and> snd (GetTeams tr decode c orgID siteId sz cursor trace) =
       trace @ [new_request c ''GET'' (GetTeams_path orgID siteId sz cursor) None []]
   \<and> GetTeams_queryParams siteId sz cursor =
       (if siteId \<noteq> [] then [''siteId='' @ siteId] else [])
       @ (if 0 < sint sz then [''size='' @ FormatInt (min (sint sz) 300)] else [])
       @ (if cursor \<noteq> [] then [''cursor='' @ cursor] else [])
   \<and> snd (FetchTeamMembers tr decode' c orgID teamID siteId after first trace) =
       trace @ [\<lparr>Method = ''POST'',
                 URL = BaseURL c @ ''/public/teams/v1/org/'' @ orgID @ ''/teams/'' @ teamID @ ''/members''
                       @ (if siteId \<noteq> [] then ''?siteId='' @ siteId else []),
                 Header = request_headers c [(''Accept'', ''*/*'')],
                 ReqBody = Some (JObject (omitempty ''after'' after
                     @ (if 0 < sint first \<and> sint first \<le> 50
                        then [(''first'', JNumber (sint first))] else [])))\<rparr>]
   \<and> map ReqBody (drop (length trace)
         (snd (FetchTeamMembers tr decode' c orgID teamID siteId after first trace)))
       = [Some (marshal_PublicApiMembershipFetchPayload (FetchTeamMembers_payload after first))]
   \<and> marshal_PublicApiMembershipFetchPayload (FetchTeamMembers_payload after first) =
       JObject (omitempty ''after'' after
                @ (if 0 < sint first \<and> sint first \<le> 50 then [(''first'', JNumber (sint first))] else []))"
proof -
  have m: "sint (if 300 < sint sz then 300 else sz) = min (sint sz) 300"
    by (simp add: min_def)
  have q: "GetTeams_queryParams siteId sz cursor =
       (if siteId \<noteq> [] then [''siteId='' @ siteId] else [])
       @ (if 0 < sint sz then [''size='' @ FormatInt (min (sint sz) 300)] else [])
       @ (if cursor \<noteq> [] then [''cursor='' @ cursor] else [])" for siteId sz cursor
    by (simp add: GetTeams_queryParams_def int32_compare Let_def min_def)
  have path: "GetTeams_path orgID siteId sz cursor =
       ''/public/teams/v1/org/'' @ orgID @ ''/teams''
       @ (let params =
                (if siteId \<noteq> [] then [''siteId='' @ siteId] else [])
                @ (if 0 < sint sz then [''size='' @ FormatInt (min (sint sz) 300)] else [])
                @ (if cursor \<noteq> [] then [''cursor='' @ cursor] else [])
          in if params = [] then [] else ''?'' @ Join params ''&'')" for orgID siteId sz cursor
    unfolding GetTeams_path_def q by (simp add: Let_def)
  have g: "snd (GetTeams tr decode c orgID siteId sz cursor trace) =
     trace @ [\<lparr>Method = ''GET'',
               URL = BaseURL c @ ''/public/teams/v1/org/'' @ orgID @ ''/teams''
                     @ (let params =
                              (if siteId \<noteq> [] then [''siteId='' @ siteId] else [])
                              @ (if 0 < sint sz then [''size='' @ FormatInt (min (sint sz) 300)] else [])
                              @ (if cursor \<noteq> [] then [''cursor='' @ cursor] else [])
                        in if params = [] then [] else ''?'' @ Join params ''&''),
               Header = request_headers c [], ReqBody = None\<rparr>]" for c orgID siteId sz cursor trace
    unfolding GetTeams_snd new_request_def path by simp
  have g1: "map URL (drop (length trace) (snd (GetTeams tr decode c orgID [] sz [] trace))) =
       [BaseURL c @ ''/public/teams/v1/org/'' @ orgID @ ''/teams''
          @ (if 0 < sint sz then ''?size='' @ FormatInt (min (sint sz) 300) else [])]"
    unfolding g by (simp add: Let_def)
  have big: "FormatInt 300 = ''300''"
    by (simp add: FormatInt_def decimal.simps)
  have g2: "map URL (snd (GetTeams tr decode example_client ''org-1'' [] 1000 [] [])) =
       [''https://api.atlassian.com/public/teams/v1/org/org-1/teams?size=300'']"
    unfolding g by (simp add: Let_def big example_client_def)
  have nz: "first \<noteq> 0" if "0 < sint first"
    using that by auto
  have p: "marshal_PublicApiMembershipFetchPayload (FetchTeamMembers_payload after first) =
       JObject (omitempty ''after'' after
                @ (if 0 < sint first \<and> sint first \<le> 50 then [(''first'', JNumber (sint first))] else []))"
    using nz
    by (simp add: marshal_PublicApiMembershipFetchPayload_def FetchTeamMembers_payload_def
        int32_compare Let_def omitempty_def)
  have f: "map ReqBody (drop (length trace)
         (snd (FetchTeamMembers tr decode' c orgID teamID siteId after first trace)))
       = [Some (marshal_PublicApiMembershipFetchPayload (FetchTeamMembers_payload after first))]"
    by (simp add: FetchTeamMembers_snd new_request_def)
  have f1: "snd (FetchTeamMembers tr decode' c orgID teamID siteId after first trace) =
       trace @ [\<lparr>Method = ''POST'',
                 URL = BaseURL c @ ''/public/teams/v1/org/'' @ orgID @ ''/teams/'' @ teamID @ ''/members''
                       @ (if siteId \<noteq> [] then ''?siteId='' @ siteId else []),
                 Header = request_headers c [(''Accept'', ''*/*'')],
                 ReqBody = Some (JObject (omitempty ''after'' after
                     @ (if 0 < sint first \<and> sint first \<le> 50
                        then [(''first'', JNumber (sint first))] else [])))\<rparr>]"
    unfolding FetchTeamMembers_snd new_request_def p by simp
  show ?thesis
    using g g1 g2 q p f f1 GetTeams_snd by blast
qed

text \<open>
  Claim C9 as stated fails for the members: asked for a page of 100, \<^verbatim>\<open>FetchTeamMembers\<close>
  sends an empty payload, not a page size of 50.
\<close>

theorem FetchTeamMembers_drops_large_page_size:
  "marshal_PublicApiMembershipFetchPayload (FetchTeamMembers_payload [] 100) = JObject []
   \<and> marshal_PublicApiMembershipFetchPayload (FetchTeamMembers_payload [] 100)
       \<noteq> JObject [(''first'', JNumber 50)]"
  by (simp add: marshal_PublicApiMembershipFetchPayload_def FetchTeamMembers_payload_def
      int32_compare Let_def omitempty_def)

subsection \<open>Validation of the team type\<close>

text \<open>
  Claim C10. Validation of the \<^verbatim>\<open>team_type\<close> attribute reports an error exactly for the
  values outside OPEN, MEMBER\_INVITE, EXTERNAL and ORG\_ADMIN\_MANAGED, and nothing for
  the four values; a configuration whose team type is outside the set fails validation,
  so \<^verbatim>\<open>Create\<close> is not run and the trace of requests stays as it was.
\<close>

theorem team_type_validated_before_Create:
  "(HasError (validate_attribute ''team_type'' (StringValue v))
      \<longleftrightarrow> v \<notin> {''OPEN'', ''MEMBER_INVITE'', ''EXTERNAL'', ''ORG_ADMIN_MANAGED''})
   \<and> (v \<in> {''OPEN'', ''MEMBER_INVITE'', ''EXTERNAL'', ''ORG_ADMIN_MANAGED''}
        \<longrightarrow> validate_attribute ''team_type'' (StringValue v) = [])
   \<and> (v \<notin> {''OPEN'', ''MEMBER_INVITE'', ''EXTERNAL'', ''ORG_ADMIN_MANAGED''}
        \<and> m_TeamType config = StringValue v
        \<longrightarrow> HasError (ValidateConfig config)
          \<and> validate_then_Create tr decode client config resp0 trace
              = (Append (ValidateConfig config) resp0, trace))"
proof -
  have 1: "HasError (validate_attribute ''team_type'' (StringValue v))
      \<longleftrightarrow> v \<notin> {''OPEN'', ''MEMBER_INVITE'', ''EXTERNAL'', ''ORG_ADMIN_MANAGED''}"
    by (simp add: validate_team_type)
  have 2: "validate_attribute ''team_type'' (StringValue v) = []"
    if "v \<in> {''OPEN'', ''MEMBER_INVITE'', ''EXTERNAL'', ''ORG_ADMIN_MANAGED''}"
    using that by (simp add: validate_team_type)
  have 3: "HasError (ValidateConfig config)"
    if "v \<notin> {''OPEN'', ''MEMBER_INVITE'', ''EXTERNAL'', ''ORG_ADMIN_MANAGED''}"
      and "m_TeamType config = StringValue v"
    using that by (simp add: ValidateConfig_def model_strings_def validate_team_type)
  have 4: "validate_then_Create tr decode client config resp0 trace
              = (Append (ValidateConfig config) resp0, trace)"
    if "HasError (ValidateConfig config)"
    using that by (simp add: validate_then_Create_def Let_def)
  show ?thesis using 1 2 3 4 by blast
qed

theorem team_type_validated_before_Create_witness:
  "HasError (validate_attribute ''team_type'' (StringValue ''CLOSED''))
   \<and> validate_attribute ''team_type'' (StringValue ''MEMBER_INVITE'') = []
   \<and> snd (validate_then_Create (answers (status 201 ''201 Created'')) (decodes_to example_team)
        example_client (example_config ''Dev Team'' [] ''CLOSED'') untracked []) = []
   \<and> HasError (Diagnostics (fst (validate_then_Create (answers (status 201 ''201 Created''))
        (decodes_to example_team) example_client (example_config ''Dev Team'' [] ''CLOSED'')
        untracked [])))"
proof -
  let ?set = "{''OPEN'', ''MEMBER_INVITE'', ''EXTERNAL'', ''ORG_ADMIN_MANAGED''}"
  have out: "''CLOSED'' \<notin> ?set \<and> m_TeamType (example_config ''Dev Team'' [] ''CLOSED'') = StringValue ''CLOSED''"
    by (simp add: example_config_def)
  have inside: "''MEMBER_INVITE'' \<in> ?set" by simp
  note rejected = team_type_validated_before_Create
      [where v = "''CLOSED''" and config = "example_config ''Dev Team'' [] ''CLOSED''"
         and tr = "answers (status 201 ''201 Created'')" and decode = "decodes_to example_team"
         and client = example_client and ?resp0.0 = untracked and trace = "[]"]
  note accepted = team_type_validated_before_Create
      [where v = "''MEMBER_INVITE''", THEN conjunct2, THEN conjunct1, THEN mp, OF inside]
  have a: "HasError (validate_attribute ''team_type'' (StringValue ''CLOSED''))"
    using rejected[THEN conjunct1] by simp
  note b = rejected[THEN conjunct2, THEN conjunct2, THEN mp, OF out]
  show ?thesis
    using a accepted b by (simp add: Append_def untracked_def)
qed

end
